theory Spec2Isabelle
  imports Main "HOL-Library.Extended_Nat"
begin

section \<open>Source positions and tokens\<close>

text \<open>
  The classes \<open>Position\<close> and \<open>Location\<close> (types/location) are not among the sources;
  the code only builds them with \<open>new Position(line, col)\<close> and
  \<open>new Location(start, end)\<close> and reads \<open>location.start\<close>, so they are plain records.
  Line and column are JavaScript numbers; the end column of an empty lexeme is
  \<open>col - 1\<close>, hence \<open>int\<close>.
\<close>

record Position =
  pos_line :: int
  pos_col :: int

record Location =
  loc_start :: Position
  loc_end :: Position

text \<open>
  \<open>Token.literal\<close> has type \<open>any\<close>: \<open>null\<close>, the number a NUMBER token stands for,
  a boolean or a string. The number is kept as the decimal text handed to
  \<open>parseFloat\<close>; the floating-point value itself is not modelled.
\<close>

datatype Literal = LNull | LNumber string | LBoolean bool | LString string

text \<open>
  The class \<open>Token\<close>. It is used with two generations of the \<open>TokenType\<close>
  enumeration (the tokenizer's and the semantic parser's), so the record is polymorphic
  in the type of its \<open>type\<close> field.
\<close>

record 'ty Token =
  ttype :: 'ty
  lexeme :: string
  literal :: Literal
  tok_start :: nat
  tok_end :: nat
  pos :: Position
  endPos :: Position

text \<open>The constructor of \<open>Token\<close>: \<open>pos\<close> and \<open>endPos\<close> are computed from line and column.\<close>

definition Token_new ::
  "'ty \<Rightarrow> string \<Rightarrow> Literal \<Rightarrow> nat \<Rightarrow> nat \<Rightarrow> int \<Rightarrow> int \<Rightarrow> 'ty Token" where
  "Token_new ty lx lit s e l c =
     \<lparr> ttype = ty, lexeme = lx, literal = lit, tok_start = s, tok_end = e,
       pos = \<lparr> pos_line = l, pos_col = c \<rparr>,
       endPos = \<lparr> pos_line = l, pos_col = c + int (length lx) - 1 \<rparr> \<rparr>"

section \<open>Groups (grouping.ts)\<close>

text \<open>
  A group holds \<open>(Token | Group)[]\<close> and the location its constructor computed.
  The union \<open>Token | Group\<close> is the datatype \<open>Datum\<close>.
\<close>

datatype 'ty Datum = Tok "'ty Token" | Grp "'ty Group"
  and 'ty Group = Group (elements: "'ty Datum list") (location: Location)

definition isToken :: "'ty Datum \<Rightarrow> bool" where
  "isToken d = (case d of Tok t \<Rightarrow> True | Grp g \<Rightarrow> False)"

definition isGroup :: "'ty Datum \<Rightarrow> bool" where
  "isGroup d = (case d of Tok t \<Rightarrow> False | Grp g \<Rightarrow> True)"

text \<open>The token enumeration of the tokenizer and of grouping.ts.\<close>

datatype TokenType_lx =
    T_LEFT_PAREN | T_RIGHT_PAREN | T_LEFT_BRACKET | T_RIGHT_BRACKET
  | T_APOSTROPHE | T_BACKTICK | T_COMMA | T_COMMA_AT
  | T_QUOTE | T_QUASIQUOTE | T_UNQUOTE | T_UNQUOTE_SPLICING
  | T_DOT | T_TRIPLE_DOT
  | T_HASH
  | T_NUMBER | T_BOOLEAN | T_STRING
  | T_SYMBOL
  | T_EOF

text \<open>
  \<open>firstToken\<close> and \<open>lastToken\<close> descend into the first (last) element until they
  reach a token. They read only the element array (the constructor calls them before
  \<open>location\<close> is set). On an empty array JavaScript reads \<open>undefined\<close> and the
  method call on it throws; that is \<open>None\<close> here.
\<close>

fun firstToken_of :: "'ty Datum list \<Rightarrow> 'ty Token option" where
  "firstToken_of [] = None"
| "firstToken_of (Tok t # ds) = Some t"
| "firstToken_of (Grp (Group els l) # ds) = firstToken_of els"

definition firstToken :: "'ty Group \<Rightarrow> 'ty Token option" where
  "firstToken g = firstToken_of (elements g)"

lemma size_last_Grp_less:
  "els \<noteq> [] \<Longrightarrow> last els = Grp g \<Longrightarrow> size_list size (elements g) < size_list size els"
  by (induction els) (auto split: if_splits, cases g, auto)

function lastToken_of :: "'ty Datum list \<Rightarrow> 'ty Token option" where
  "lastToken_of els =
     (if els = [] then None
      else (case last els of Tok t \<Rightarrow> Some t | Grp g \<Rightarrow> lastToken_of (elements g)))"
  by pat_completeness auto
termination
  by (relation "measure (size_list size)") (auto simp: size_last_Grp_less)

declare lastToken_of.simps [simp del]

definition lastToken :: "'ty Group \<Rightarrow> 'ty Token option" where
  "lastToken g = lastToken_of (elements g)"













section \<open>The semantic parser (SchemeParser)\<close>

text \<open>The token enumeration the semantic parser imports (types/tokens/token-type).\<close>

datatype TokenType =
    LEFT_PAREN | RIGHT_PAREN | LEFT_BRACKET | RIGHT_BRACKET | DOT
  | HASH_SEMICOLON
  | IDENTIFIER | NUMBER | BOOLEAN | STRING
  | IF | LET | COND | ELSE | DEFINE | LAMBDA
  | APOSTROPHE | BACKTICK | COMMA | COMMA_AT
  | QUOTE | QUASIQUOTE | UNQUOTE | UNQUOTE_SPLICING
  | SET | BEGIN | DELAY
  | IMPORT | EXPORT
  | JS_IMPORT | JS_EXPORT
  | HASH_VECTOR | VECTOR
  | EOF

text \<open>The quoting mode of the parser (\<open>enum QuoteMode\<close>).\<close>

datatype QuoteMode = Mode_NONE | Mode_QUOTE | Mode_QUASIQUOTE

text \<open>
  The node classes (types/nodes/scheme-node-types) are not among the sources. Each
  constructor below is one class of the namespaces \<open>Atomic\<close> and \<open>Extended\<close>, with
  the arguments in the order in which the parser passes them to \<open>new\<close>; an optional
  argument (\<open>undefined\<close> when left out) is an \<open>option\<close>.
\<close>

datatype Expression =
    Atomic_NumericLiteral Location Literal
  | Atomic_BooleanLiteral Location Literal
  | Atomic_StringLiteral Location Literal
  | Atomic_Identifier Location string
  | Atomic_Symbol Location string
  | Atomic_Nil Location
  | Atomic_Vector Location "Expression list"
  | Atomic_Sequence Location "Expression list"
  | Atomic_Lambda Location Expression "Expression list" "Expression option"
  | Atomic_Definition Location Expression Expression
  | Atomic_Conditional Location Expression Expression Expression
  | Atomic_Application Location Expression "Expression list"
  | Atomic_Reassignment Location Expression Expression
  | Atomic_Import Location Expression "Expression list" bool
  | Atomic_Export Location Expression bool
  | Atomic_SpliceMarker Location Expression
  | Extended_List Location "Expression list" "Expression option"
  | Extended_FunctionDefinition Location Expression Expression "Expression list"
      "Expression option"
  | Extended_Let Location "Expression list" "Expression list" Expression
  | Extended_Cond Location "Expression list" "Expression list" "Expression option"
  | Extended_Begin Location "Expression list"
  | Extended_Delay Location Expression

text \<open>The field \<open>location\<close> of a node: the first argument of its constructor.\<close>

fun node_location :: "Expression \<Rightarrow> Location" where
  "node_location (Atomic_NumericLiteral l v) = l"
| "node_location (Atomic_BooleanLiteral l v) = l"
| "node_location (Atomic_StringLiteral l v) = l"
| "node_location (Atomic_Identifier l n) = l"
| "node_location (Atomic_Symbol l n) = l"
| "node_location (Atomic_Nil l) = l"
| "node_location (Atomic_Vector l es) = l"
| "node_location (Atomic_Sequence l es) = l"
| "node_location (Atomic_Lambda l b ps r) = l"
| "node_location (Atomic_Definition l n v) = l"
| "node_location (Atomic_Conditional l t c a) = l"
| "node_location (Atomic_Application l f as) = l"
| "node_location (Atomic_Reassignment l n v) = l"
| "node_location (Atomic_Import l s ns j) = l"
| "node_location (Atomic_Export l d j) = l"
| "node_location (Atomic_SpliceMarker l e) = l"
| "node_location (Extended_List l es t) = l"
| "node_location (Extended_FunctionDefinition l n b ps r) = l"
| "node_location (Extended_Let l ns vs b) = l"
| "node_location (Extended_Cond l ps cs e) = l"
| "node_location (Extended_Begin l es) = l"
| "node_location (Extended_Delay l e) = l"

text \<open>
  Modelled from the spec: \<open>Location.merge\<close> (types/location) is not among the sources.
  The spec derives a span from a first and a last constituent ("covering its first to
  last element"), so the merged location runs from the start of the receiver to the
  end of the argument.
\<close>

definition merge :: "Location \<Rightarrow> Location \<Rightarrow> Location" where
  "merge a b = \<lparr> loc_start = loc_start a, loc_end = loc_end b \<rparr>"

text \<open>
  The error classes of parser-error are not among the sources. An error keeps its
  class, the position it was raised with (\<open>None\<close> where the code reads the \<open>pos\<close> of
  a group, which is \<open>undefined\<close>) and, for \<open>ExpectedFormError\<close>, the expected form.
  \<open>JSTypeError\<close> is the TypeError JavaScript raises when the code calls a method or
  reads a property of \<open>undefined\<close>, or calls a Group method on a Token.
\<close>

datatype ParserError =
    DisallowedTokenError "Position option"
  | UnexpectedFormError "Position option"
  | UnsupportedTokenError "Position option"
  | ExpectedFormError "Position option" string
  | JSTypeError

text \<open>Sequencing of calls that may throw.\<close>

definition bindE :: "'e + 'a \<Rightarrow> ('a \<Rightarrow> 'e + 'b) \<Rightarrow> 'e + 'b" where
  "bindE r f = (case r of Inl e \<Rightarrow> Inl e | Inr x \<Rightarrow> f x)"

definition throwIf :: "'e option \<Rightarrow> 'e + 'b \<Rightarrow> 'e + 'b" where
  "throwIf c k = (case c of Some e \<Rightarrow> Inl e | None \<Rightarrow> k)"

lemma bindE_cong [fundef_cong]:
  "r = r' \<Longrightarrow> (\<And>x. r' = Inr x \<Longrightarrow> f x = f' x) \<Longrightarrow> bindE r f = bindE r' f'"
  by (auto simp: bindE_def split: sum.splits)

lemma throwIf_cong [fundef_cong]:
  "c = c' \<Longrightarrow> (c' = None \<Longrightarrow> k = k') \<Longrightarrow> throwIf c k = throwIf c' k'"
  by (auto simp: throwIf_def split: option.splits)

lemma bindE_simps [simp]:
  "bindE (Inl e) f = Inl e" "bindE (Inr x) f = f x"
  by (simp_all add: bindE_def)

lemma throwIf_simps [simp]:
  "throwIf (Some e) k = Inl e" "throwIf None k = k"
  by (simp_all add: throwIf_def)

text \<open>
  The class \<open>Group\<close> that the parser imports (types/tokens/group) is not among the
  sources. \<open>isParenthesized\<close>, \<open>unwrap\<close>, \<open>length\<close> and \<open>firstToken\<close> are those of
  the Group class of grouping.ts, read over the parser's token enumeration; the
  location is the stored field.
\<close>

definition isParenthesized :: "TokenType Group \<Rightarrow> bool" where
  "isParenthesized g =
     (case elements g of
        [] \<Rightarrow> False
      | Grp x # xs \<Rightarrow> False
      | Tok firstElement # xs \<Rightarrow>
          ttype firstElement = LEFT_PAREN \<or> ttype firstElement = LEFT_BRACKET)"

definition unwrap :: "TokenType Group \<Rightarrow> TokenType Datum list" where
  "unwrap g =
     (if isParenthesized g then drop 1 (take (length (elements g) - 1) (elements g))
      else elements g)"

definition Group_length :: "TokenType Group \<Rightarrow> nat" where
  "Group_length g = length (unwrap g)"

text \<open>
  Modelled from the spec: \<open>Group.isSingleIdentifier\<close> is not among the sources. The
  spec has \<open>parseExpression\<close> unwrap "a Group that, per invariant, represents a single
  wrapped token": a group that is not parenthesized and holds exactly one token.
\<close>

definition isSingleIdentifier :: "TokenType Group \<Rightarrow> bool" where
  "isSingleIdentifier g =
     (\<not> isParenthesized g \<and> (case unwrap g of [Tok t] \<Rightarrow> True | _ \<Rightarrow> False))"

text \<open>The chapters by which the parser groups the syntactical elements.\<close>

definition BASIC_CHAPTER :: enat where "BASIC_CHAPTER = 1"
definition QUOTING_CHAPTER :: enat where "QUOTING_CHAPTER = 2"
definition VECTOR_CHAPTER :: enat where "VECTOR_CHAPTER = 3"
definition MUTABLE_CHAPTER :: enat where "MUTABLE_CHAPTER = 3"

text \<open>
  The parser's chapter is a number whose default is \<open>Infinity\<close>: an \<open>enat\<close>.
  \<open>validateChapter\<close> throws when the parser's chapter is below the chapter of the form;
  \<open>Some\<close> is the error thrown.
\<close>

definition validateChapter :: "enat \<Rightarrow> TokenType Token \<Rightarrow> enat \<Rightarrow> ParserError option" where
  "validateChapter this_chapter c chapter =
     (if this_chapter < chapter then Some (DisallowedTokenError (Some (pos c))) else None)"

definition toLocation :: "'ty Token \<Rightarrow> Location" where
  "toLocation token = \<lparr> loc_start = pos token, loc_end = endPos token \<rparr>"

text \<open>
  \<open>parseToken\<close> reads the quote mode and leaves it unchanged; like every method of the
  parser below it returns the node together with the quote mode after the call.
\<close>

definition parseToken ::
  "QuoteMode \<Rightarrow> TokenType Token \<Rightarrow> ParserError + (Expression \<times> QuoteMode)" where
  "parseToken quoteMode token =
     (case ttype token of
        IDENTIFIER \<Rightarrow>
          Inr (if quoteMode = Mode_NONE
               then Atomic_Identifier (toLocation token) (lexeme token)
               else Atomic_Symbol (toLocation token) (lexeme token), quoteMode)
      | NUMBER \<Rightarrow> Inr (Atomic_NumericLiteral (toLocation token) (literal token), quoteMode)
      | BOOLEAN \<Rightarrow> Inr (Atomic_BooleanLiteral (toLocation token) (literal token), quoteMode)
      | STRING \<Rightarrow> Inr (Atomic_StringLiteral (toLocation token) (literal token), quoteMode)
      | _ \<Rightarrow>
          if quoteMode \<noteq> Mode_NONE
          then Inr (Atomic_Symbol (toLocation token) (lexeme token), quoteMode)
          else Inl (UnexpectedFormError (Some (pos token))))"

text \<open>
  The verifier that \<open>parseLambda\<close> and \<open>parseDefinition\<close> pass to \<open>destructureList\<close>
  (the same arrow function in both): \<open>Some\<close> is the error it throws.
\<close>

definition identifierVerifier :: "TokenType Datum \<Rightarrow> ParserError option" where
  "identifierVerifier formal =
     (case formal of
        Grp g \<Rightarrow> Some (ExpectedFormError None ''<identifier>'')
      | Tok t \<Rightarrow>
          if ttype t \<noteq> IDENTIFIER then Some (ExpectedFormError (Some (pos t)) ''<identifier>'')
          else None)"

text \<open>The default verifier of \<open>destructureList\<close> accepts everything.\<close>

definition noVerifier :: "TokenType Datum \<Rightarrow> ParserError option" where
  "noVerifier x = None"

text \<open>\<open>list.forEach(verifier)\<close>: the first error stops the loop.\<close>

fun forEach_verifier ::
  "(TokenType Datum \<Rightarrow> ParserError option) \<Rightarrow> TokenType Datum list \<Rightarrow> ParserError option" where
  "forEach_verifier verifier [] = None"
| "forEach_verifier verifier (d # ds) =
     (case verifier d of Some e \<Rightarrow> Some e | None \<Rightarrow> forEach_verifier verifier ds)"

text \<open>The body of a lambda, a function definition or a let: one expression, or a sequence.\<close>

definition bodyOf :: "Expression list \<Rightarrow> Expression" where
  "bodyOf convertedBody =
     (if length convertedBody = 1 then convertedBody ! 0
      else Atomic_Sequence
             (merge (node_location (hd convertedBody)) (node_location (last convertedBody)))
             convertedBody)"

text \<open>
  \<open>parseImport\<close> makes no recursive call. The loop over the identifiers is
  \<open>importIdentifiers\<close>.
\<close>

fun importIdentifiers :: "TokenType Datum list \<Rightarrow> ParserError + Expression list" where
  "importIdentifiers [] = Inr []"
| "importIdentifiers (Grp g # ds) =
     Inl (ExpectedFormError (Some (loc_start (location g))) ''<identifier>'')"
| "importIdentifiers (Tok t # ds) =
     (if ttype t \<noteq> IDENTIFIER then Inl (ExpectedFormError (Some (pos t)) ''<identifier>'')
      else bindE (importIdentifiers ds)
             (\<lambda>rest. Inr (Atomic_Identifier (toLocation t) (lexeme t) # rest)))"

definition firstTokenPos :: "TokenType Group \<Rightarrow> (Position option \<Rightarrow> ParserError) \<Rightarrow> ParserError" where
  "firstTokenPos g err = (case firstToken g of None \<Rightarrow> JSTypeError | Some t \<Rightarrow> err (Some (pos t)))"

definition parseImport ::
  "QuoteMode \<Rightarrow> TokenType Group \<Rightarrow> bool \<Rightarrow> ParserError + (Expression \<times> QuoteMode)" where
  "parseImport m g is_js =
     (if Group_length g \<noteq> 3 then
        Inl (firstTokenPos g (\<lambda>p. ExpectedFormError p
               (''('' @ (if is_js then ''js-import'' else ''import'') @ '' '' @ [CHR 0x22]
                @ ''<source>'' @ [CHR 0x22] @ '' (<identifier>*))'')))
      else
        (case unwrap g ! 1 of
           Grp sg \<Rightarrow>
             Inl (ExpectedFormError (Some (loc_start (location sg)))
                    ([CHR 0x22] @ ''<source>'' @ [CHR 0x22]))
         | Tok source \<Rightarrow>
             if ttype source \<noteq> STRING then
               Inl (ExpectedFormError (Some (pos source)) ([CHR 0x22] @ ''<source>'' @ [CHR 0x22]))
             else
               (case unwrap g ! 2 of
                  Tok identifiers \<Rightarrow>
                    Inl (ExpectedFormError (Some (pos identifiers)) ''(<identifier>*)'')
                | Grp identifiers \<Rightarrow>
                    bindE (importIdentifiers (unwrap identifiers))
                      (\<lambda>convertedIdentifiers.
                         Inr (Atomic_Import (location g)
                                (Atomic_StringLiteral (toLocation source) (literal source))
                                convertedIdentifiers is_js, m)))))"

text \<open>The property \<open>pos\<close> read from a datum: a group has none (\<open>undefined\<close>).\<close>

definition datumPos :: "'ty Datum \<Rightarrow> Position option" where
  "datumPos d = (case d of Tok t \<Rightarrow> Some (pos t) | Grp g \<Rightarrow> None)"

text \<open>\<open>isToken(potentialDot) && potentialDot.type === TokenType.DOT\<close>.\<close>

definition isDotToken :: "TokenType Datum \<Rightarrow> bool" where
  "isDotToken potentialDot = (case potentialDot of Tok t \<Rightarrow> ttype t = DOT | Grp g \<Rightarrow> False)"

definition isElseToken :: "TokenType Datum \<Rightarrow> bool" where
  "isElseToken test = (case test of Tok t \<Rightarrow> ttype t = ELSE | Grp g \<Rightarrow> False)"

text \<open>\<open>instanceof Atomic.Definition || instanceof Extended.FunctionDefinition\<close>.\<close>

definition isDefinitionNode :: "Expression \<Rightarrow> bool" where
  "isDefinitionNode e =
     (case e of
        Atomic_Definition l n v \<Rightarrow> True
      | Extended_FunctionDefinition l n b ps r \<Rightarrow> True
      | _ \<Rightarrow> False)"

text \<open>
  The two-element list that a quote-family affector leaves inside quoted data:
  the symbol named after the affector, then the parsed target.
\<close>

definition taggedList :: "TokenType Token \<Rightarrow> string \<Rightarrow> Expression \<Rightarrow> Expression" where
  "taggedList affector name innerGroup =
     Extended_List
       (merge (node_location (Atomic_Symbol (toLocation affector) name))
          (node_location innerGroup))
       [Atomic_Symbol (toLocation affector) name, innerGroup] None"

lemma size_Group_elements: "size_list size (elements g) < size g"
  by (cases g) simp

lemma size_list_take_le: "size_list size (take n xs) \<le> size_list size xs"
  by (induction xs arbitrary: n) (auto simp: take_Cons split: nat.splits)

lemma size_list_drop_le: "size_list size (drop n xs) \<le> size_list size xs"
  by (induction xs arbitrary: n)
     (auto simp: drop_Cons le_SucI trans_le_add2 split: nat.splits)

lemma size_list_butlast_le: "size_list size (butlast xs) \<le> size_list size xs"
  by (induction xs) auto

lemma size_unwrap_le: "size_list size (unwrap g) \<le> size_list size (elements g)"
  unfolding unwrap_def
  using order_trans [OF size_list_drop_le size_list_take_le] by auto

lemma size_unwrap_less: "size_list size (unwrap g) < size g"
  using size_unwrap_le [of g] size_Group_elements [of g] by simp

lemma size_mem_less: "x \<in> set xs \<Longrightarrow> size x < size_list size xs"
  by (induction xs) auto

lemma size_unwrap_mem: "x \<in> set (unwrap g) \<Longrightarrow> size x < size g"
  using size_mem_less [of x "unwrap g"] size_unwrap_less [of g] by simp

lemma size_unwrap_nth: "i < Group_length g \<Longrightarrow> size (unwrap g ! i) < size g"
  by (simp add: Group_length_def size_unwrap_mem)

lemma size_Grp: "d = Grp h \<Longrightarrow> size h < size d"
  by simp

text \<open>
  The measure of the termination proof: the size of the datum, group or datum list a
  method receives, then the order in which the methods hand the same argument on.
  Its argument is the sum of the argument tuples of the methods, in their order.
\<close>

definition parser_measure where
  "parser_measure x =
     (case x of
        Inl (Inl (Inl (Inl (ch, m, expr)))) \<Rightarrow> (size expr, 6::nat)
      | Inl (Inl (Inl (Inr (ch, m, ds)))) \<Rightarrow> (size_list size ds, 0)
      | Inl (Inl (Inr (Inl (ch, m, list, verifier)))) \<Rightarrow> (size_list size list, 1)
      | Inl (Inl (Inr (Inr (Inl (ch, m, g))))) \<Rightarrow> (size g, 5)
      | Inl (Inl (Inr (Inr (Inr (ch, m, g))))) \<Rightarrow> (size g, 3)
      | Inl (Inr (Inl (Inl (ch, m, g)))) \<Rightarrow> (size g, 4)
      | Inl (Inr (Inl (Inr (ch, m, g)))) \<Rightarrow> (size g, 3)
      | Inl (Inr (Inr (Inl (ch, m, g)))) \<Rightarrow> (size g, 3)
      | Inl (Inr (Inr (Inr (Inl (ch, m, g))))) \<Rightarrow> (size g, 3)
      | Inl (Inr (Inr (Inr (Inr (ch, m, g))))) \<Rightarrow> (size g, 3)
      | Inr (Inl (Inl (Inl (ch, m, g)))) \<Rightarrow> (size g, 3)
      | Inr (Inl (Inl (Inr (ch, m, g)))) \<Rightarrow> (size g, 3)
      | Inr (Inl (Inr (Inl (ch, m, ds)))) \<Rightarrow> (size_list size ds, 1)
      | Inr (Inl (Inr (Inr (Inl (ch, m, g))))) \<Rightarrow> (size g, 3)
      | Inr (Inl (Inr (Inr (Inr (ch, m, ds))))) \<Rightarrow> (size_list size ds, 1)
      | Inr (Inr (Inl (Inl (ch, m, g)))) \<Rightarrow> (size g, 3)
      | Inr (Inr (Inl (Inr (ch, m, g)))) \<Rightarrow> (size g, 3)
      | Inr (Inr (Inr (Inl (ch, m, g)))) \<Rightarrow> (size g, 3)
      | Inr (Inr (Inr (Inr (Inl (ch, m, g, is_js))))) \<Rightarrow> (size g, 3)
      | Inr (Inr (Inr (Inr (Inr (ch, m, g))))) \<Rightarrow> (size g, 2))"

lemma size_nth_less: "i < length xs \<Longrightarrow> size (xs ! i) < size_list size xs"
  by (simp add: size_mem_less)

lemma size_last_less: "xs \<noteq> [] \<Longrightarrow> size (last xs) < size_list size xs"
  by (simp add: size_mem_less)

lemma size_list_take_less: "k < length xs \<Longrightarrow> size_list size (take k xs) < size_list size xs"
proof (induction xs arbitrary: k)
  case Nil
  then show ?case by simp
next
  case (Cons x xs)
  show ?case
  proof (cases k)
    case 0
    then show ?thesis by simp
  next
    case (Suc j)
    with Cons.prems have "j < length xs" by simp
    then have "size_list size (take j xs) < size_list size xs" by (rule Cons.IH)
    with Suc show ?thesis by simp
  qed
qed

lemma size_list_drop_unwrap: "size_list size (drop n (unwrap g)) < size g"
  using size_list_drop_le [of n "unwrap g"] size_unwrap_less [of g] by simp

lemma size_unwrap_nth_Grp:
  "unwrap g ! i = Grp h \<Longrightarrow> i < length (unwrap g) \<Longrightarrow> Suc (size h) < size g"
  using size_unwrap_nth [of i g] by (simp add: Group_length_def)

lemma size_unwrap_last_Grp:
  "last (unwrap g) = Grp h \<Longrightarrow> unwrap g \<noteq> [] \<Longrightarrow> Suc (size h) < size g"
  using size_unwrap_mem [of "Grp h" g] last_in_set [of "unwrap g"] by auto

lemma size_unwrap_tl: "unwrap h = x # xs \<Longrightarrow> size_list size xs < size h"
  using size_unwrap_less [of h] by simp

text \<open>
  The methods of the parser. \<open>map_parseExpression\<close> is
  \<open>list.map(this.parseExpression.bind(this))\<close> (and the loops that push
  \<open>parseExpression\<close> of each element): the elements are parsed from left to right,
  each in the quote mode the one before left. \<open>parseLet_bindings\<close> and
  \<open>parseExtendedCond_clauses\<close> are the loops over the bindings of a let and over
  the clauses of a cond but the last. \<open>splice(1)\<close> and \<open>pop()\<close> change arrays
  that \<open>unwrap\<close> copied or that are not read again, so they are \<open>drop 1\<close>,
  \<open>last\<close> and \<open>butlast\<close>. The statements after the last \<open>throw\<close> of the
  unquote-splicing case cannot be reached and are left out.
\<close>

function parseExpression ::
    "enat \<Rightarrow> QuoteMode \<Rightarrow> TokenType Datum \<Rightarrow> ParserError + (Expression \<times> QuoteMode)"
  and map_parseExpression ::
    "enat \<Rightarrow> QuoteMode \<Rightarrow> TokenType Datum list
      \<Rightarrow> ParserError + (Expression list \<times> QuoteMode)"
  and destructureList ::
    "enat \<Rightarrow> QuoteMode \<Rightarrow> TokenType Datum list \<Rightarrow> (TokenType Datum \<Rightarrow> ParserError option)
      \<Rightarrow> ParserError + ((Expression list \<times> Expression option) \<times> QuoteMode)"
  and parseGroup ::
    "enat \<Rightarrow> QuoteMode \<Rightarrow> TokenType Group \<Rightarrow> ParserError + (Expression \<times> QuoteMode)"
  and parseAffectorGroup ::
    "enat \<Rightarrow> QuoteMode \<Rightarrow> TokenType Group \<Rightarrow> ParserError + (Expression \<times> QuoteMode)"
  and parseNormalGroup ::
    "enat \<Rightarrow> QuoteMode \<Rightarrow> TokenType Group \<Rightarrow> ParserError + (Expression \<times> QuoteMode)"
  and parseQuotedGroup ::
    "enat \<Rightarrow> QuoteMode \<Rightarrow> TokenType Group \<Rightarrow> ParserError + (Expression \<times> QuoteMode)"
  and parseLambda ::
    "enat \<Rightarrow> QuoteMode \<Rightarrow> TokenType Group \<Rightarrow> ParserError + (Expression \<times> QuoteMode)"
  and parseDefinition ::
    "enat \<Rightarrow> QuoteMode \<Rightarrow> TokenType Group \<Rightarrow> ParserError + (Expression \<times> QuoteMode)"
  and parseConditional ::
    "enat \<Rightarrow> QuoteMode \<Rightarrow> TokenType Group \<Rightarrow> ParserError + (Expression \<times> QuoteMode)"
  and parseApplication ::
    "enat \<Rightarrow> QuoteMode \<Rightarrow> TokenType Group \<Rightarrow> ParserError + (Expression \<times> QuoteMode)"
  and parseLet ::
    "enat \<Rightarrow> QuoteMode \<Rightarrow> TokenType Group \<Rightarrow> ParserError + (Expression \<times> QuoteMode)"
  and parseLet_bindings ::
    "enat \<Rightarrow> QuoteMode \<Rightarrow> TokenType Datum list
      \<Rightarrow> ParserError + ((Expression list \<times> Expression list) \<times> QuoteMode)"
  and parseExtendedCond ::
    "enat \<Rightarrow> QuoteMode \<Rightarrow> TokenType Group \<Rightarrow> ParserError + (Expression \<times> QuoteMode)"
  and parseExtendedCond_clauses ::
    "enat \<Rightarrow> QuoteMode \<Rightarrow> TokenType Datum list
      \<Rightarrow> ParserError + ((Expression list \<times> Expression list) \<times> QuoteMode)"
  and parseSet ::
    "enat \<Rightarrow> QuoteMode \<Rightarrow> TokenType Group \<Rightarrow> ParserError + (Expression \<times> QuoteMode)"
  and parseBegin ::
    "enat \<Rightarrow> QuoteMode \<Rightarrow> TokenType Group \<Rightarrow> ParserError + (Expression \<times> QuoteMode)"
  and parseDelay ::
    "enat \<Rightarrow> QuoteMode \<Rightarrow> TokenType Group \<Rightarrow> ParserError + (Expression \<times> QuoteMode)"
  and parseExport ::
    "enat \<Rightarrow> QuoteMode \<Rightarrow> TokenType Group \<Rightarrow> bool
      \<Rightarrow> ParserError + (Expression \<times> QuoteMode)"
  and parseVector ::
    "enat \<Rightarrow> QuoteMode \<Rightarrow> TokenType Group \<Rightarrow> ParserError + (Expression \<times> QuoteMode)"
where
  "parseExpression ch m expr =
     (case expr of
        Tok t \<Rightarrow> parseToken m t
      | Grp g \<Rightarrow>
          if isSingleIdentifier g then
            (case unwrap g of Tok t # rest \<Rightarrow> parseToken m t | _ \<Rightarrow> Inl JSTypeError)
          else parseGroup ch m g)"

| "map_parseExpression ch m [] = Inr ([], m)"
| "map_parseExpression ch m (d # ds) =
     bindE (parseExpression ch m d) (\<lambda>(e, m1).
     bindE (map_parseExpression ch m1 ds) (\<lambda>(es, m2).
       Inr (e # es, m2)))"

| "destructureList ch m list verifier =
     (if length list = 0 then Inr (([], None), m)
      else if length list = 1 then
        throwIf (verifier (list ! 0))
          (bindE (parseExpression ch m (list ! 0)) (\<lambda>(e, m1). Inr (([e], None), m1)))
      else if isDotToken (list ! (length list - 2)) then
        throwIf (verifier (last list))
          (throwIf (forEach_verifier verifier (take (length list - 2) list))
            (bindE (map_parseExpression ch m (take (length list - 2) list)) (\<lambda>(listElements, m1).
             bindE (parseExpression ch m1 (last list)) (\<lambda>(cdrElement, m2).
               Inr ((listElements, Some cdrElement), m2)))))
      else
        throwIf (forEach_verifier verifier list)
          (bindE (map_parseExpression ch m list) (\<lambda>(listElements, m1).
             Inr ((listElements, None), m1))))"

| "parseGroup ch m g =
     (if \<not> isParenthesized g then parseAffectorGroup ch m g
      else (case m of
              Mode_NONE \<Rightarrow> parseNormalGroup ch m g
            | Mode_QUOTE \<Rightarrow> parseQuotedGroup ch m g
            | Mode_QUASIQUOTE \<Rightarrow> parseQuotedGroup ch m g))"

| "parseAffectorGroup ch m g =
     (case unwrap g of
        [] \<Rightarrow> Inl JSTypeError
      | Grp x # rest \<Rightarrow> Inl (UnexpectedFormError None)
      | Tok affector # rest \<Rightarrow>
          if ttype affector = APOSTROPHE \<or> ttype affector = QUOTE then
            throwIf (validateChapter ch affector QUOTING_CHAPTER)
              (if m \<noteq> Mode_NONE then
                 bindE (case rest of [] \<Rightarrow> Inl JSTypeError
                        | target # r \<Rightarrow> parseExpression ch m target) (\<lambda>(innerGroup, m1).
                   Inr (taggedList affector ''quote'' innerGroup, m1))
               else
                 bindE (case rest of [] \<Rightarrow> Inl JSTypeError
                        | target # r \<Rightarrow> parseExpression ch Mode_QUOTE target)
                   (\<lambda>(quotedExpression, m1). Inr (quotedExpression, Mode_NONE)))
          else if ttype affector = BACKTICK \<or> ttype affector = QUASIQUOTE then
            throwIf (validateChapter ch affector QUOTING_CHAPTER)
              (if m \<noteq> Mode_NONE then
                 bindE (case rest of [] \<Rightarrow> Inl JSTypeError
                        | target # r \<Rightarrow> parseExpression ch m target) (\<lambda>(innerGroup, m1).
                   Inr (taggedList affector ''quasiquote'' innerGroup, m1))
               else
                 bindE (case rest of [] \<Rightarrow> Inl JSTypeError
                        | target # r \<Rightarrow> parseExpression ch Mode_QUASIQUOTE target)
                   (\<lambda>(quasiquotedExpression, m1). Inr (quasiquotedExpression, Mode_NONE)))
          else if ttype affector = COMMA \<or> ttype affector = UNQUOTE then
            throwIf (validateChapter ch affector QUOTING_CHAPTER)
              (if m = Mode_NONE then Inl (UnsupportedTokenError (Some (pos affector)))
               else if m = Mode_QUOTE then
                 bindE (case rest of [] \<Rightarrow> Inl JSTypeError
                        | target # r \<Rightarrow> parseExpression ch m target) (\<lambda>(innerGroup, m1).
                   Inr (taggedList affector ''unquote'' innerGroup, m1))
               else
                 bindE (case rest of [] \<Rightarrow> Inl JSTypeError
                        | target # r \<Rightarrow> parseExpression ch Mode_NONE target)
                   (\<lambda>(unquotedExpression, m1). Inr (unquotedExpression, m)))
          else if ttype affector = COMMA_AT \<or> ttype affector = UNQUOTE_SPLICING then
            throwIf (validateChapter ch affector QUOTING_CHAPTER)
              (if m = Mode_NONE then Inl (UnexpectedFormError (Some (pos affector)))
               else if m = Mode_QUOTE then
                 bindE (case rest of [] \<Rightarrow> Inl JSTypeError
                        | target # r \<Rightarrow> parseExpression ch m target) (\<lambda>(innerGroup, m1).
                   Inr (taggedList affector ''unquote-splicing'' innerGroup, m1))
               else Inl (UnsupportedTokenError (Some (pos affector))))
          else if ttype affector = HASH_VECTOR then
            throwIf (validateChapter ch affector VECTOR_CHAPTER)
              (bindE (parseVector ch Mode_QUOTE g) (\<lambda>(vector, m1). Inr (vector, m)))
          else Inl (UnexpectedFormError (Some (pos affector))))"

| "parseNormalGroup ch m g =
     (if Group_length g = 0 then
        Inl (ExpectedFormError (Some (loc_start (location g))) ''non-empty group'')
      else
        (case unwrap g ! 0 of
           Grp x \<Rightarrow> parseApplication ch m g
         | Tok firstElement \<Rightarrow>
             if ttype firstElement = LAMBDA then
               throwIf (validateChapter ch firstElement BASIC_CHAPTER) (parseLambda ch m g)
             else if ttype firstElement = DEFINE then
               throwIf (validateChapter ch firstElement BASIC_CHAPTER) (parseDefinition ch m g)
             else if ttype firstElement = IF then
               throwIf (validateChapter ch firstElement BASIC_CHAPTER) (parseConditional ch m g)
             else if ttype firstElement = LET then
               throwIf (validateChapter ch firstElement BASIC_CHAPTER) (parseLet ch m g)
             else if ttype firstElement = COND then
               throwIf (validateChapter ch firstElement BASIC_CHAPTER) (parseExtendedCond ch m g)
             else if ttype firstElement = QUOTE \<or> ttype firstElement = APOSTROPHE
                  \<or> ttype firstElement = QUASIQUOTE \<or> ttype firstElement = BACKTICK
                  \<or> ttype firstElement = UNQUOTE \<or> ttype firstElement = COMMA
                  \<or> ttype firstElement = UNQUOTE_SPLICING \<or> ttype firstElement = COMMA_AT then
               throwIf (validateChapter ch firstElement QUOTING_CHAPTER)
                 (parseAffectorGroup ch m g)
             else if ttype firstElement = BEGIN then
               throwIf (validateChapter ch firstElement MUTABLE_CHAPTER) (parseBegin ch m g)
             else if ttype firstElement = DELAY then
               throwIf (validateChapter ch firstElement MUTABLE_CHAPTER) (parseDelay ch m g)
             else if ttype firstElement = SET then
               throwIf (validateChapter ch firstElement MUTABLE_CHAPTER) (parseSet ch m g)
             else if ttype firstElement = IMPORT then
               throwIf (validateChapter ch firstElement BASIC_CHAPTER) (parseImport m g False)
             else if ttype firstElement = JS_IMPORT then
               throwIf (validateChapter ch firstElement BASIC_CHAPTER) (parseImport m g True)
             else if ttype firstElement = EXPORT then
               throwIf (validateChapter ch firstElement BASIC_CHAPTER) (parseExport ch m g False)
             else if ttype firstElement = JS_EXPORT then
               throwIf (validateChapter ch firstElement BASIC_CHAPTER) (parseExport ch m g True)
             else if ttype firstElement = VECTOR then
               throwIf (validateChapter ch firstElement VECTOR_CHAPTER)
                 (parseAffectorGroup ch m g)
             else parseApplication ch m g))"

| "parseQuotedGroup ch m g =
     (if Group_length g = 0 then Inr (Atomic_Nil (location g), m)
      else if Group_length g = 1 then
        bindE (parseExpression ch m (unwrap g ! 0)) (\<lambda>(e, m1).
          Inr (Extended_List (location g) [e] None, m1))
      else
        bindE (destructureList ch m (unwrap g) noVerifier) (\<lambda>((listElements, cdrElement), m1).
          Inr (Extended_List (location g) listElements cdrElement, m1)))"

| "parseLambda ch m g =
     (if Group_length g < 3 then
        Inl (ExpectedFormError (Some (loc_start (location g)))
          ''(lambda (<identifier>* . <rest-identifier>?) <body>+) | (lambda <rest-identifer> <body>+)'')
      else
        bindE
          (case unwrap g ! 1 of
             Tok formals \<Rightarrow>
               if ttype formals \<noteq> IDENTIFIER then
                 Inl (ExpectedFormError (Some (pos formals)) ''<rest-identifier>'')
               else Inr (([], Some (Atomic_Identifier (toLocation formals) (lexeme formals))), m)
           | Grp formals \<Rightarrow> destructureList ch m (unwrap formals) identifierVerifier)
          (\<lambda>((convertedFormals, convertedRest), m1).
             bindE (map_parseExpression ch m1 (drop 2 (unwrap g))) (\<lambda>(convertedBody, m2).
               if length convertedBody < 1 then
                 Inl (ExpectedFormError (Some (loc_start (location g))) ''(lambda ... <body>+)'')
               else
                 Inr (Atomic_Lambda (location g) (bodyOf convertedBody) convertedFormals
                        convertedRest, m2))))"

| "parseDefinition ch m g =
     (if Group_length g < 3 then
        Inl (ExpectedFormError (Some (loc_start (location g)))
          ''(define <identifier> <expr>) | (define (<identifier> <formals>) <body>+)'')
      else
        (case unwrap g ! 1 of
           Grp identifier \<Rightarrow>
             (case unwrap identifier of
                [] \<Rightarrow> Inl JSTypeError
              | Grp functionName # formals \<Rightarrow>
                  Inl (ExpectedFormError (Some (loc_start (location functionName)))
                    ''<identifier>'')
              | Tok functionName # formals \<Rightarrow>
                  if ttype functionName \<noteq> IDENTIFIER then
                    Inl (ExpectedFormError (Some (pos functionName)) ''<identifier>'')
                  else
                    bindE (destructureList ch m formals identifierVerifier)
                      (\<lambda>((convertedFormals, convertedRest), m1).
                         if length (drop 2 (unwrap g)) < 1 then
                           Inl (ExpectedFormError (Some (loc_start (location g)))
                             ''(define ... <body>+)'')
                         else
                           bindE (map_parseExpression ch m1 (drop 2 (unwrap g)))
                             (\<lambda>(convertedBody, m2).
                                Inr (Extended_FunctionDefinition (location g)
                                       (Atomic_Identifier (toLocation functionName)
                                          (lexeme functionName))
                                       (bodyOf convertedBody) convertedFormals convertedRest,
                                     m2))))
         | Tok identifier \<Rightarrow>
             if ttype identifier \<noteq> IDENTIFIER then
               Inl (ExpectedFormError (Some (pos identifier)) ''<identifier>'')
             else if length (drop 2 (unwrap g)) < 1 then
               Inl (ExpectedFormError (Some (loc_start (location g))) ''(define ... <body>+)'')
             else if length (drop 2 (unwrap g)) > 1 then
               Inl (ExpectedFormError (Some (loc_start (location g)))
                 ''(define <identifier> <expr>)'')
             else
               bindE (parseExpression ch m (drop 2 (unwrap g) ! 0)) (\<lambda>(convertedExpr, m1).
                 Inr (Atomic_Definition (location g)
                        (Atomic_Identifier (toLocation identifier) (lexeme identifier))
                        convertedExpr, m1))))"

| "parseConditional ch m g =
     (if Group_length g < 3 \<or> Group_length g > 4 then
        Inl (ExpectedFormError (Some (loc_start (location g))) ''(if <pred> <cons> <alt>?)'')
      else
        bindE (parseExpression ch m (unwrap g ! 1)) (\<lambda>(convertedTest, m1).
        bindE (parseExpression ch m1 (unwrap g ! 2)) (\<lambda>(convertedConsequent, m2).
        bindE (if Group_length g > 3 then parseExpression ch m2 (unwrap g ! 3)
               else Inr (Atomic_Identifier (location g) ''undefined'', m2))
          (\<lambda>(convertedAlternate, m3).
             Inr (Atomic_Conditional (location g) convertedTest convertedConsequent
                    convertedAlternate, m3)))))"

| "parseApplication ch m g =
     (if Group_length g < 1 then
        Inl (ExpectedFormError (Some (loc_start (location g))) ''(<func> <args>*)'')
      else
        bindE (parseExpression ch m (unwrap g ! 0)) (\<lambda>(convertedOperator, m1).
        bindE (map_parseExpression ch m1 (drop 1 (unwrap g))) (\<lambda>(convertedOperands, m2).
          Inr (Atomic_Application (location g) convertedOperator convertedOperands, m2))))"

| "parseLet ch m g =
     (if Group_length g < 3 then
        Inl (ExpectedFormError (Some (loc_start (location g)))
          ''(let ((<identifier> <value>)*) <body>+)'')
      else
        (case unwrap g ! 1 of
           Tok bindings \<Rightarrow>
             Inl (ExpectedFormError (Some (pos bindings)) ''((<identifier> <value>)*)'')
         | Grp bindings \<Rightarrow>
             bindE (parseLet_bindings ch m (unwrap bindings))
               (\<lambda>((convertedIdentifiers, convertedValues), m1).
                  bindE (map_parseExpression ch m1 (drop 2 (unwrap g))) (\<lambda>(convertedBody, m2).
                    if length convertedBody < 1 then
                      Inl (ExpectedFormError (Some (loc_start (location g)))
                        ''(let ... <body>+)'')
                    else
                      Inr (Extended_Let (location g) convertedIdentifiers convertedValues
                             (bodyOf convertedBody), m2)))))"

| "parseLet_bindings ch m [] = Inr (([], []), m)"
| "parseLet_bindings ch m (bindingElement # rest) =
     (case bindingElement of
        Tok t \<Rightarrow> Inl (ExpectedFormError (Some (pos t)) ''(<identifier> <value>)'')
      | Grp b \<Rightarrow>
          if Group_length b \<noteq> 2 then
            Inl (ExpectedFormError (Some (loc_start (location b))) ''(<identifier> <value>)'')
          else
            (case unwrap b ! 0 of
               Grp identifier \<Rightarrow>
                 Inl (ExpectedFormError (Some (loc_start (location identifier)))
                   ''<identifier>'')
             | Tok identifier \<Rightarrow>
                 if ttype identifier \<noteq> IDENTIFIER then
                   Inl (ExpectedFormError (Some (pos identifier)) ''<identifier>'')
                 else
                   bindE (parseExpression ch m (unwrap b ! 1)) (\<lambda>(v, m1).
                   bindE (parseLet_bindings ch m1 rest) (\<lambda>((identifiers, vals), m2).
                     Inr ((Atomic_Identifier (toLocation identifier) (lexeme identifier)
                             # identifiers, v # vals), m2)))))"

| "parseExtendedCond ch m g =
     (if Group_length g < 2 then
        Inl (ExpectedFormError (Some (loc_start (location g)))
          ''(cond (<pred> <body>*)* (else <val>)?)'')
      else
        bindE (parseExtendedCond_clauses ch m (butlast (drop 1 (unwrap g))))
          (\<lambda>((convertedClauses, convertedConsequents), m1).
             (case last (drop 1 (unwrap g)) of
                Tok lastClause \<Rightarrow>
                  Inl (ExpectedFormError (Some (pos lastClause))
                    ''(<pred> <body>+) | (else <val>)'')
              | Grp lastClause \<Rightarrow>
                  if Group_length lastClause < 2 then
                    Inl (firstTokenPos lastClause
                      (\<lambda>p. ExpectedFormError p ''(<pred> <body>+) | (else <val>)''))
                  else if isElseToken (unwrap lastClause ! 0)
                          \<and> length (drop 1 (unwrap lastClause)) \<noteq> 1 then
                    Inl (ExpectedFormError (Some (loc_start (location lastClause)))
                      ''(else <val>)'')
                  else if length (drop 1 (unwrap lastClause)) < 1 then
                    Inl (ExpectedFormError (Some (loc_start (location lastClause)))
                      ''(<pred> <body>+)'')
                  else
                    bindE (map_parseExpression ch m1 (drop 1 (unwrap lastClause)))
                      (\<lambda>(consequentExpressions, m2).
                         if isElseToken (unwrap lastClause ! 0) then
                           Inr (Extended_Cond (location g) convertedClauses convertedConsequents
                                  (Some (bodyOf consequentExpressions)), m2)
                         else
                           bindE (parseExpression ch m2 (unwrap lastClause ! 0))
                             (\<lambda>(lastTest, m3).
                                Inr (Extended_Cond (location g) (convertedClauses @ [lastTest])
                                       (convertedConsequents @ [bodyOf consequentExpressions])
                                       None, m3))))))"

| "parseExtendedCond_clauses ch m [] = Inr (([], []), m)"
| "parseExtendedCond_clauses ch m (clause # rest) =
     (case clause of
        Tok t \<Rightarrow> Inl (ExpectedFormError (Some (pos t)) ''(<pred> <body>*)'')
      | Grp c \<Rightarrow>
          if Group_length c < 1 then
            Inl (firstTokenPos c (\<lambda>p. ExpectedFormError p ''(<pred> <body>*)''))
          else if isElseToken (unwrap c ! 0) then
            Inl (ExpectedFormError (datumPos (unwrap c ! 0)) ''<predicate>'')
          else
            bindE (parseExpression ch m (unwrap c ! 0)) (\<lambda>(convertedTest, m1).
            bindE (map_parseExpression ch m1 (drop 1 (unwrap c))) (\<lambda>(consequentExpressions, m2).
            bindE (parseExtendedCond_clauses ch m2 rest) (\<lambda>((tests, consequents), m3).
              Inr ((convertedTest # tests,
                    (if length (drop 1 (unwrap c)) < 1 then convertedTest
                     else bodyOf consequentExpressions) # consequents), m3)))))"

| "parseSet ch m g =
     (if Group_length g \<noteq> 3 then
        Inl (ExpectedFormError (Some (loc_start (location g))) ''(set! <identifier> <expr>)'')
      else
        (case unwrap g ! 1 of
           Grp identifier \<Rightarrow>
             Inl (ExpectedFormError (Some (loc_start (location identifier))) ''<identifier>'')
         | Tok identifier \<Rightarrow>
             if ttype identifier \<noteq> IDENTIFIER then
               Inl (ExpectedFormError (Some (pos identifier)) ''<identifier>'')
             else
               bindE (parseExpression ch m (unwrap g ! 2)) (\<lambda>(convertedExpr, m1).
                 Inr (Atomic_Reassignment (location g)
                        (Atomic_Identifier (toLocation identifier) (lexeme identifier))
                        convertedExpr, m1))))"

| "parseBegin ch m g =
     (if Group_length g < 2 then
        Inl (ExpectedFormError (Some (loc_start (location g))) ''(begin <body>+)'')
      else
        bindE (map_parseExpression ch m (drop 1 (unwrap g))) (\<lambda>(convertedExpressions, m1).
          Inr (Extended_Begin (location g) convertedExpressions, m1)))"

| "parseDelay ch m g =
     (if Group_length g \<noteq> 2 then
        Inl (ExpectedFormError (Some (loc_start (location g))) ''(delay <expr>)'')
      else
        bindE (parseExpression ch m (unwrap g ! 1)) (\<lambda>(convertedExpr, m1).
          Inr (Extended_Delay (location g) convertedExpr, m1)))"

| "parseExport ch m g is_js =
     (if Group_length g \<noteq> 2 then
        Inl (firstTokenPos g (\<lambda>p. ExpectedFormError p
               (''('' @ (if is_js then ''js-export'' else ''export'') @ '' (<definition>))'')))
      else
        (case unwrap g ! 1 of
           Tok definition \<Rightarrow>
             Inl (ExpectedFormError (Some (pos definition)) ''(<definition>)'')
         | Grp definition \<Rightarrow>
             bindE (parseExpression ch m (Grp definition)) (\<lambda>(convertedDefinition, m1).
               if \<not> isDefinitionNode convertedDefinition then
                 Inl (ExpectedFormError (Some (loc_start (location definition)))
                   ''(<definition>)'')
               else Inr (Atomic_Export (location g) convertedDefinition is_js, m1))))"

| "parseVector ch m g =
     (if length (unwrap g) < 2 then Inl JSTypeError
      else
        (case unwrap g ! 1 of
           Tok t \<Rightarrow> Inl JSTypeError
         | Grp elems \<Rightarrow>
             bindE (map_parseExpression ch m (unwrap elems)) (\<lambda>(convertedElements, m1).
               Inr (Atomic_Vector (location g) convertedElements, m1))))"
  by pat_completeness auto

termination
  apply (relation "inv_image (less_than <*lex*> less_than) parser_measure")
  apply (intro wf_inv_image wf_lex_prod wf_less_than)
  apply (simp_all add: parser_measure_def size_nth_less size_last_less size_list_take_less
      size_list_drop_unwrap size_unwrap_nth size_unwrap_less size_unwrap_mem Group_length_def)
  subgoal for g x2
    using size_unwrap_nth_Grp [of g "Suc 0" x2] size_unwrap_less [of x2] by simp
  subgoal for g x2 x21 x22 x1
    using size_unwrap_nth_Grp [of g "Suc 0" x2] size_unwrap_tl [of x2 "Tok x1" x22] by simp
  subgoal for g x2
    using size_unwrap_nth_Grp [of g "Suc 0" x2] size_unwrap_less [of x2] by simp
  subgoal for bindingElement rest x2 x1
    using size_unwrap_nth [of "Suc 0" x2] by (simp add: Group_length_def)
  subgoal for g
    using size_list_butlast_le [of "drop (Suc 0) (unwrap g)"] size_list_drop_unwrap [of "Suc 0" g]
    by simp
  subgoal for ch m g x xa y xb ya x2
    using size_unwrap_last_Grp [of g x2] size_list_drop_unwrap [of "Suc 0" x2]
    by (cases "unwrap g = []") auto
  subgoal for ch m g x xa y xb ya xc x2
    using size_unwrap_last_Grp [of g x2] size_unwrap_nth [of 0 x2]
    by (cases "unwrap g = []"; cases "unwrap x2 = []") (auto simp: Group_length_def)
  subgoal for clause rest x2
    using size_unwrap_nth [of 0 x2] by (simp add: Group_length_def)
  subgoal for ch m clause rest x2
    using size_list_drop_unwrap [of "Suc 0" x2] by simp
  subgoal for g x2
    using size_unwrap_nth_Grp [of g "Suc 0" x2] by simp
  subgoal for g x2
    using size_unwrap_nth_Grp [of g "Suc 0" x2] size_unwrap_less [of x2] by simp
  done

declare parseExpression.simps [simp del] destructureList.simps [simp del]
  parseGroup.simps [simp del] parseAffectorGroup.simps [simp del]
  parseNormalGroup.simps [simp del] parseQuotedGroup.simps [simp del]
  parseLambda.simps [simp del] parseDefinition.simps [simp del]
  parseConditional.simps [simp del] parseApplication.simps [simp del]
  parseLet.simps [simp del] parseExtendedCond.simps [simp del]
  parseSet.simps [simp del] parseBegin.simps [simp del] parseDelay.simps [simp del]
  parseExport.simps [simp del] parseVector.simps [simp del]

text \<open>
  A call keeps the quote mode \<open>m\<close> when it throws or returns with the quote mode \<open>m\<close>.
\<close>

definition keeps :: "QuoteMode \<Rightarrow> 'e + ('a \<times> QuoteMode) \<Rightarrow> bool" where
  "keeps m r = (case r of Inl e \<Rightarrow> True | Inr (x, m') \<Rightarrow> m' = m)"

section \<open>Chapters of the forms, and example data\<close>

text \<open>
  The chapter with which \<open>parseNormalGroup\<close> calls \<open>validateChapter\<close> for the
  keyword that heads a parenthesized group, and the chapter with which
  \<open>parseAffectorGroup\<close> calls it for an affector (\<open>None\<close>: no check for that token).
\<close>

definition formChapter :: "TokenType \<Rightarrow> enat option" where
  "formChapter ty =
     (if ty \<in> {LAMBDA, DEFINE, IF, LET, COND} then Some BASIC_CHAPTER
      else if ty \<in> {QUOTE, APOSTROPHE, QUASIQUOTE, BACKTICK, UNQUOTE, COMMA,
                     UNQUOTE_SPLICING, COMMA_AT} then Some QUOTING_CHAPTER
      else if ty \<in> {BEGIN, DELAY, SET} then Some MUTABLE_CHAPTER
      else if ty \<in> {IMPORT, JS_IMPORT, EXPORT, JS_EXPORT} then Some BASIC_CHAPTER
      else if ty = VECTOR then Some VECTOR_CHAPTER
      else None)"

definition affectorChapter :: "TokenType \<Rightarrow> enat option" where
  "affectorChapter ty =
     (if ty \<in> {APOSTROPHE, QUOTE, BACKTICK, QUASIQUOTE, COMMA, UNQUOTE,
                COMMA_AT, UNQUOTE_SPLICING} then Some QUOTING_CHAPTER
      else if ty = HASH_VECTOR then Some VECTOR_CHAPTER
      else None)"

text \<open>The keyword tokens of the special forms and of the quote family.\<close>

definition specialFormKeywords :: "TokenType list" where
  "specialFormKeywords =
     [IF, LET, COND, ELSE, DEFINE, LAMBDA, SET, BEGIN, DELAY, IMPORT, EXPORT,
      JS_IMPORT, JS_EXPORT, QUOTE, QUASIQUOTE, UNQUOTE, UNQUOTE_SPLICING]"

text \<open>
  Example data: a token of line 1 that starts at column \<open>c\<close> (counted from 1), and
  the location of a group from the first column of its first token to the first
  column of its last token.
\<close>

definition tokenAt :: "TokenType \<Rightarrow> string \<Rightarrow> Literal \<Rightarrow> nat \<Rightarrow> TokenType Token" where
  "tokenAt ty lx lit c = Token_new ty lx lit (c - 1) (c - 1 + length lx) 1 (int c)"

definition span :: "nat \<Rightarrow> nat \<Rightarrow> Location" where
  "span a b = \<lparr> loc_start = \<lparr> pos_line = 1, pos_col = int a \<rparr>,
               loc_end = \<lparr> pos_line = 1, pos_col = int b \<rparr> \<rparr>"

text \<open>The datum of the source text \<open>(let ((x 1)) x)\<close>.\<close>

definition example_let :: "TokenType Datum" where
  "example_let =
     Grp (Group
       [Tok (tokenAt LEFT_PAREN ''('' LNull 1),
        Tok (tokenAt LET ''let'' LNull 2),
        Grp (Group
          [Tok (tokenAt LEFT_PAREN ''('' LNull 6),
           Grp (Group
             [Tok (tokenAt LEFT_PAREN ''('' LNull 7),
              Tok (tokenAt IDENTIFIER ''x'' LNull 8),
              Tok (tokenAt NUMBER ''1'' (LNumber ''1'') 10),
              Tok (tokenAt RIGHT_PAREN '')'' LNull 11)] (span 7 11)),
           Tok (tokenAt RIGHT_PAREN '')'' LNull 12)] (span 6 12)),
        Tok (tokenAt IDENTIFIER ''x'' LNull 14),
        Tok (tokenAt RIGHT_PAREN '')'' LNull 15)] (span 1 15))"

text \<open>The datum of \<open>'x\<close>: the apostrophe and the group of the single token \<open>x\<close>.\<close>

definition example_quote :: "TokenType Datum" where
  "example_quote =
     Grp (Group
       [Tok (tokenAt APOSTROPHE [CHR 0x27] LNull 1),
        Grp (Group [Tok (tokenAt IDENTIFIER ''x'' LNull 2)] (span 2 2))] (span 1 2))"

text \<open>The data of \<open>,@x\<close> and \<open>,x\<close>.\<close>

definition example_unquote_splicing :: "TokenType Datum" where
  "example_unquote_splicing =
     Grp (Group
       [Tok (tokenAt COMMA_AT '',@'' LNull 1),
        Grp (Group [Tok (tokenAt IDENTIFIER ''x'' LNull 3)] (span 3 3))] (span 1 3))"

definition example_unquote :: "TokenType Datum" where
  "example_unquote =
     Grp (Group
       [Tok (tokenAt COMMA '','' LNull 1),
        Grp (Group [Tok (tokenAt IDENTIFIER ''x'' LNull 2)] (span 2 2))] (span 1 2))"

text \<open>
  The datum of \<open>(unquote-splicing x)\<close>: the grouping stage pushes the keyword as a
  plain element of the parenthesized group.
\<close>

definition example_unquote_splicing_form :: "TokenType Datum" where
  "example_unquote_splicing_form =
     Grp (Group
       [Tok (tokenAt LEFT_PAREN ''('' LNull 1),
        Tok (tokenAt UNQUOTE_SPLICING ''unquote-splicing'' LNull 2),
        Tok (tokenAt IDENTIFIER ''x'' LNull 19),
        Tok (tokenAt RIGHT_PAREN '')'' LNull 20)] (span 1 20))"

text \<open>The datum of \<open>#(x 1)\<close>.\<close>

definition example_vector :: "TokenType Datum" where
  "example_vector =
     Grp (Group
       [Tok (tokenAt HASH_VECTOR ''#'' LNull 1),
        Grp (Group
          [Tok (tokenAt LEFT_PAREN ''('' LNull 2),
           Tok (tokenAt IDENTIFIER ''x'' LNull 3),
           Tok (tokenAt NUMBER ''1'' (LNumber ''1'') 5),
           Tok (tokenAt RIGHT_PAREN '')'' LNull 6)] (span 2 6))] (span 1 6))"

text \<open>The elements of \<open>(a b . c)\<close> between its parentheses.\<close>

definition example_dotted :: "TokenType Datum list" where
  "example_dotted =
     [Tok (tokenAt IDENTIFIER ''a'' LNull 2),
      Tok (tokenAt IDENTIFIER ''b'' LNull 4),
      Tok (tokenAt DOT ''.'' LNull 6),
      Tok (tokenAt IDENTIFIER ''c'' LNull 8)]"

text \<open>The datum of \<open>(set! x 1)\<close>.\<close>

definition example_set :: "TokenType Datum" where
  "example_set =
     Grp (Group
       [Tok (tokenAt LEFT_PAREN ''('' LNull 1),
        Tok (tokenAt SET ''set!'' LNull 2),
        Tok (tokenAt IDENTIFIER ''x'' LNull 7),
        Tok (tokenAt NUMBER ''1'' (LNumber ''1'') 9),
        Tok (tokenAt RIGHT_PAREN '')'' LNull 10)] (span 1 10))"

section \<open>Spans of raw tokens\<close>




text \<open>A call is located at \<open>l\<close> when it throws or returns a node whose location is \<open>l\<close>.\<close>

definition located :: "Location \<Rightarrow> 'e + (Expression \<times> 'm) \<Rightarrow> bool" where
  "located l r = (case r of Inl e \<Rightarrow> True | Inr (e, m) \<Rightarrow> node_location e = l)"


section \<open>Properties of Group.build\<close>




section \<open>The quote mode after a call\<close>

text \<open>
  No method of the parser leaves the quote mode changed: every affector that switches the
  mode for its target restores the mode it found, and a vector does the same.
\<close>

lemma keeps_Inl [simp]: "keeps m (Inl e)"
  by (simp add: keeps_def)

lemma keeps_Inr [simp]: "keeps m (Inr (x, m')) \<longleftrightarrow> m' = m"
  by (simp add: keeps_def)

lemma keeps_bindE:
  "keeps m0 r \<Longrightarrow> (\<And>x. r = Inr (x, m0) \<Longrightarrow> keeps m (f (x, m0))) \<Longrightarrow> keeps m (bindE r f)"
  by (auto simp: keeps_def bindE_def split: sum.splits)

lemma keeps_throwIf: "(c = None \<Longrightarrow> keeps m k) \<Longrightarrow> keeps m (throwIf c k)"
  by (auto simp: throwIf_def split: option.splits)

lemma keeps_parseToken: "keeps m (parseToken m t)"
  by (auto simp: parseToken_def split: TokenType.splits)

lemma keeps_parseImport: "keeps m (parseImport m g j)"
  by (auto simp: parseImport_def bindE_def keeps_def split: Datum.splits sum.splits)

lemma keeps_throwIf_iff: "keeps m (throwIf c k) \<longleftrightarrow> (c = None \<longrightarrow> keeps m k)"
  by (auto simp: throwIf_def split: option.splits)

lemma keeps_bindE_target:
  assumes "\<And>t r. rest = t # r \<Longrightarrow> keeps m0 (parseExpression ch m0 t)"
    and "\<And>x t r. rest = t # r \<Longrightarrow> parseExpression ch m0 t = Inr (x, m0) \<Longrightarrow> keeps m (f (x, m0))"
  shows "keeps m (bindE (case rest of [] \<Rightarrow> Inl e | t # r \<Rightarrow> parseExpression ch m0 t) f)"
  using assms by (cases rest) (auto intro: keeps_bindE)

lemmas keeps_bindE_call =
  keeps_bindE [of m0 "parseExpression ch m0 d" for ch m0 d]
  keeps_bindE [of m0 "map_parseExpression ch m0 l" for ch m0 l]
  keeps_bindE [of m0 "destructureList ch m0 l v" for ch m0 l v]
  keeps_bindE [of m0 "parseLet_bindings ch m0 l" for ch m0 l]
  keeps_bindE [of m0 "parseExtendedCond_clauses ch m0 l" for ch m0 l]
  keeps_bindE [of m0 "parseVector ch m0 g" for ch m0 g]

lemmas parser_induct = parseExpression_map_parseExpression_destructureList_parseGroup_parseAffectorGroup_parseNormalGroup_parseQuotedGroup_parseLambda_parseDefinition_parseConditional_parseApplication_parseLet_parseLet_bindings_parseExtendedCond_parseExtendedCond_clauses_parseSet_parseBegin_parseDelay_parseExport_parseVector.induct

lemma mode_preserved_all:
  shows "keeps m (parseExpression ch m d)"
    and "keeps m (map_parseExpression ch m ds)"
    and "keeps m (destructureList ch m list v)"
    and "keeps m (parseGroup ch m g)"
    and "keeps m (parseAffectorGroup ch m g)"
    and "keeps m (parseNormalGroup ch m g)"
    and "keeps m (parseQuotedGroup ch m g)"
    and "keeps m (parseLambda ch m g)"
    and "keeps m (parseDefinition ch m g)"
    and "keeps m (parseConditional ch m g)"
    and "keeps m (parseApplication ch m g)"
    and "keeps m (parseLet ch m g)"
    and "keeps m (parseLet_bindings ch m ds)"
    and "keeps m (parseExtendedCond ch m g)"
    and "keeps m (parseExtendedCond_clauses ch m ds)"
    and "keeps m (parseSet ch m g)"
    and "keeps m (parseBegin ch m g)"
    and "keeps m (parseDelay ch m g)"
    and "keeps m (parseExport ch m g j)"
    and "keeps m (parseVector ch m g)"
proof (induct ch m d and ch m ds and ch m list v and ch m g and ch m g and ch m g
    and ch m g and ch m g and ch m g and ch m g and ch m g and ch m g and ch m ds
    and ch m g and ch m ds and ch m g and ch m g and ch m g and ch m g j and ch m g
    rule: parser_induct)
  case (1 ch m expr)
  then show ?case
    by (subst parseExpression.simps)
       (auto split: Datum.split list.split simp: keeps_parseToken)
next
  case (2 ch m)
  then show ?case by simp
next
  case (3 ch m d ds)
  then show ?case
    by (auto intro!: keeps_bindE_call)
next
  case (4 ch m list verifier)
  then show ?case
    by (subst destructureList.simps) (auto intro!: keeps_bindE_call keeps_throwIf)
next
  case (5 ch m g)
  then show ?case
    by (subst parseGroup.simps) (auto split: QuoteMode.split)
next
  case (6 ch m g)
  show ?case
  proof (cases "unwrap g")
    case Nil
    then show ?thesis by (subst parseAffectorGroup.simps) simp
  next
    case (Cons a rest)
    show ?thesis
    proof (cases a)
      case (Grp x)
      with Cons show ?thesis by (subst parseAffectorGroup.simps) simp
    next
      case (Tok affector)
      note ih = "6.hyps" [OF Cons Tok]
      have vec: "keeps Mode_QUOTE (parseVector ch Mode_QUOTE g)"
        if "ttype affector = HASH_VECTOR" "validateChapter ch affector VECTOR_CHAPTER = None"
        using ih(8) that by simp
      show ?thesis
      proof (cases m)
        case Mode_NONE
        have tq: "keeps Mode_QUOTE (parseExpression ch Mode_QUOTE t)"
          if "rest = t # r" "validateChapter ch affector QUOTING_CHAPTER = None"
            "ttype affector \<in> {APOSTROPHE, QUOTE}" for t r
          using ih(2) that Mode_NONE by auto
        have tqq: "keeps Mode_QUASIQUOTE (parseExpression ch Mode_QUASIQUOTE t)"
          if "rest = t # r" "validateChapter ch affector QUOTING_CHAPTER = None"
            "ttype affector \<in> {BACKTICK, QUASIQUOTE}" for t r
          using ih(4) that Mode_NONE by auto
        show ?thesis
          apply (subst parseAffectorGroup.simps)
          apply (simp only: Cons Tok list.case Datum.case Mode_NONE)
          apply (cases "ttype affector")
          apply (simp_all add: keeps_throwIf_iff)
          apply (auto intro!: keeps_bindE_target keeps_bindE_call vec tq tqq)
          done
      next
        case Mode_QUOTE
        have tgt: "keeps Mode_QUOTE (parseExpression ch Mode_QUOTE t)"
          if "rest = t # r" "validateChapter ch affector QUOTING_CHAPTER = None"
            "ttype affector \<in> {APOSTROPHE, QUOTE, BACKTICK, QUASIQUOTE, COMMA, UNQUOTE,
               COMMA_AT, UNQUOTE_SPLICING}" for t r
          using ih(1,3,5,7) that Mode_QUOTE by auto
        show ?thesis
          apply (subst parseAffectorGroup.simps)
          apply (simp only: Cons Tok list.case Datum.case Mode_QUOTE)
          apply (cases "ttype affector")
          apply (simp_all add: keeps_throwIf_iff)
          apply (auto intro!: keeps_bindE_target keeps_bindE_call vec tgt)
          done
      next
        case Mode_QUASIQUOTE
        have tgt: "keeps Mode_QUASIQUOTE (parseExpression ch Mode_QUASIQUOTE t)"
          if "rest = t # r" "validateChapter ch affector QUOTING_CHAPTER = None"
            "ttype affector \<in> {APOSTROPHE, QUOTE, BACKTICK, QUASIQUOTE}" for t r
          using ih(1,3) that Mode_QUASIQUOTE by auto
        have tn: "keeps Mode_NONE (parseExpression ch Mode_NONE t)"
          if "rest = t # r" "validateChapter ch affector QUOTING_CHAPTER = None"
            "ttype affector \<in> {COMMA, UNQUOTE}" for t r
          using ih(6) that Mode_QUASIQUOTE by auto
        show ?thesis
          apply (subst parseAffectorGroup.simps)
          apply (simp only: Cons Tok list.case Datum.case Mode_QUASIQUOTE)
          apply (cases "ttype affector")
          apply (simp_all add: keeps_throwIf_iff)
          apply (auto intro!: keeps_bindE_target keeps_bindE_call vec tgt tn)
          done
      qed
    qed
  qed
next
  case (7 ch m g)
  show ?case
  proof (cases "Group_length g = 0")
    case True
    then show ?thesis by (subst parseNormalGroup.simps) simp
  next
    case False
    show ?thesis
    proof (cases "unwrap g ! 0")
      case (Grp x)
      with False "7.hyps"(14) show ?thesis
        by (subst parseNormalGroup.simps) simp
    next
      case (Tok firstElement)
      note ih = "7.hyps"(1-13) [OF False Tok]
      have k1: "keeps m (parseLambda ch m g)"
        if "ttype firstElement = LAMBDA"
          "validateChapter ch firstElement BASIC_CHAPTER = None"
        using ih(1) that by auto
      have k2: "keeps m (parseDefinition ch m g)"
        if "ttype firstElement = DEFINE"
          "validateChapter ch firstElement BASIC_CHAPTER = None"
        using ih(2) that by auto
      have k3: "keeps m (parseConditional ch m g)"
        if "ttype firstElement = IF"
          "validateChapter ch firstElement BASIC_CHAPTER = None"
        using ih(3) that by auto
      have k4: "keeps m (parseLet ch m g)"
        if "ttype firstElement = LET"
          "validateChapter ch firstElement BASIC_CHAPTER = None"
        using ih(4) that by auto
      have k5: "keeps m (parseExtendedCond ch m g)"
        if "ttype firstElement = COND"
          "validateChapter ch firstElement BASIC_CHAPTER = None"
        using ih(5) that by auto
      have k6: "keeps m (parseAffectorGroup ch m g)"
        if "ttype firstElement \<in> {QUOTE, APOSTROPHE, QUASIQUOTE, BACKTICK, UNQUOTE, COMMA, UNQUOTE_SPLICING, COMMA_AT}"
          "validateChapter ch firstElement QUOTING_CHAPTER = None"
        using ih(6) that by auto
      have k7: "keeps m (parseBegin ch m g)"
        if "ttype firstElement = BEGIN"
          "validateChapter ch firstElement MUTABLE_CHAPTER = None"
        using ih(7) that by auto
      have k8: "keeps m (parseDelay ch m g)"
        if "ttype firstElement = DELAY"
          "validateChapter ch firstElement MUTABLE_CHAPTER = None"
        using ih(8) that by auto
      have k9: "keeps m (parseSet ch m g)"
        if "ttype firstElement = SET"
          "validateChapter ch firstElement MUTABLE_CHAPTER = None"
        using ih(9) that by auto
      have k10: "keeps m (parseExport ch m g False)"
        if "ttype firstElement = EXPORT"
          "validateChapter ch firstElement BASIC_CHAPTER = None"
        using ih(10) that by auto
      have k11: "keeps m (parseExport ch m g True)"
        if "ttype firstElement = JS_EXPORT"
          "validateChapter ch firstElement BASIC_CHAPTER = None"
        using ih(11) that by auto
      have k12: "keeps m (parseAffectorGroup ch m g)"
        if "ttype firstElement = VECTOR"
          "validateChapter ch firstElement VECTOR_CHAPTER = None"
        using ih(12) that by auto
      have k13: "keeps m (parseApplication ch m g)"
        if "ttype firstElement \<notin> {LAMBDA, DEFINE, IF, LET, COND, QUOTE, APOSTROPHE, QUASIQUOTE,
          BACKTICK, UNQUOTE, COMMA, UNQUOTE_SPLICING, COMMA_AT, BEGIN, DELAY, SET, IMPORT,
          JS_IMPORT, EXPORT, JS_EXPORT, VECTOR}"
        using ih(13) that by simp
      show ?thesis
        apply (subst parseNormalGroup.simps)
        apply (simp only: False Tok if_False Datum.case)
        apply (cases "ttype firstElement")
        apply (simp_all add: keeps_throwIf_iff keeps_parseImport k1 k2 k3 k4 k5 k6 k7 k8 k9 k10 k11 k12 k13)
        done
    qed
  qed
next
  case (8 ch m g)
  then show ?case
    by (subst parseQuotedGroup.simps) (auto intro!: keeps_bindE_call)
next
  case (9 ch m g)
  then show ?case
    by (subst parseLambda.simps) (auto intro!: keeps_bindE_call keeps_bindE split: Datum.split)
next
  case (10 ch m g)
  then show ?case
    by (subst parseDefinition.simps)
       (auto intro!: keeps_bindE_call split: Datum.split list.split)
next
  case (11 ch m g)
  then show ?case
    by (subst parseConditional.simps) (auto intro!: keeps_bindE_call keeps_bindE)
next
  case (12 ch m g)
  then show ?case
    by (subst parseApplication.simps) (auto intro!: keeps_bindE_call)
next
  case (13 ch m g)
  then show ?case
    by (subst parseLet.simps) (auto intro!: keeps_bindE_call split: Datum.split)
next
  case (14 ch m)
  then show ?case by simp
next
  case (15 ch m bindingElement rest)
  then show ?case
    by (auto intro!: keeps_bindE_call split: Datum.split)
next
  case (16 ch m g)
  then show ?case
    by (subst parseExtendedCond.simps) (auto intro!: keeps_bindE_call split: Datum.split)
next
  case (17 ch m)
  then show ?case by simp
next
  case (18 ch m clause rest)
  then show ?case
    by (auto intro!: keeps_bindE_call split: Datum.split)
next
  case (19 ch m g)
  then show ?case
    by (subst parseSet.simps) (auto intro!: keeps_bindE_call split: Datum.split)
next
  case (20 ch m g)
  then show ?case
    by (subst parseBegin.simps) (auto intro!: keeps_bindE_call)
next
  case (21 ch m g)
  then show ?case
    by (subst parseDelay.simps) (auto intro!: keeps_bindE_call)
next
  case (22 ch m g is_js)
  then show ?case
    by (subst parseExport.simps) (auto intro!: keeps_bindE_call split: Datum.split)
next
  case (23 ch m g)
  then show ?case
    by (subst parseVector.simps) (auto intro!: keeps_bindE_call split: Datum.split)
qed

lemma mode_kept:
  "parseExpression ch m d = Inr (e, m') \<Longrightarrow> m' = m"
  using mode_preserved_all(1) [of m ch d] by (simp add: keeps_def)
text \<open>
  Consequences for lists: mapping the parser over a list succeeds exactly when every
  element parses, each in the mode the list was entered with.
\<close>

lemma map_parseExpression_iff:
  "map_parseExpression ch m ds = Inr (es, m') \<longleftrightarrow>
     m' = m \<and> length es = length ds \<and>
     (\<forall>i<length ds. parseExpression ch m (ds ! i) = Inr (es ! i, m))"
proof (induction ds arbitrary: es)
  case Nil
  then show ?case by auto
next
  case (Cons d ds)
  show ?case
  proof (cases "parseExpression ch m d")
    case (Inl err)
    then show ?thesis by (auto simp: less_Suc_eq_0_disj)
  next
    case (Inr r)
    obtain e m1 where r: "r = (e, m1)" by (cases r)
    with Inr have m1: "m1 = m" by (auto dest: mode_kept)
    show ?thesis
    proof (cases es)
      case Nil
      then show ?thesis
        using Inr r by (auto simp: bindE_def split: sum.splits)
    next
      case (Cons e' es')
      show ?thesis
        using Inr r m1 Cons Cons.IH [of es']
        by (auto simp: bindE_def less_Suc_eq_0_disj split: sum.splits)
    qed
  qed
qed

lemma forEach_verifier_None:
  "forEach_verifier v ds = None \<longleftrightarrow> (\<forall>d\<in>set ds. v d = None)"
  by (induction ds) (auto split: option.splits)

lemma throwIf_Inr:
  "throwIf c k = Inr x \<longleftrightarrow> c = None \<and> k = Inr x"
  by (auto simp: throwIf_def split: option.splits)

lemma bindE_Inr:
  "bindE r f = Inr x \<longleftrightarrow> (\<exists>y. r = Inr y \<and> f y = Inr x)"
  by (auto simp: bindE_def split: sum.splits)

lemma isDotToken_iff:
  "isDotToken d \<longleftrightarrow> (\<exists>dot. d = Tok dot \<and> ttype dot = DOT)"
  by (auto simp: isDotToken_def split: Datum.splits)

section \<open>Properties of the semantic parser\<close>

lemma parseToken_IDENTIFIER:
  "ttype x = IDENTIFIER \<Longrightarrow>
   parseToken m x =
     Inr (if m = Mode_NONE then Atomic_Identifier (toLocation x) (lexeme x)
          else Atomic_Symbol (toLocation x) (lexeme x), m)"
  by (simp add: parseToken_def)

lemma parseToken_keyword:
  "ttype t \<in> set specialFormKeywords \<Longrightarrow>
   parseToken m t =
     (if m \<noteq> Mode_NONE then Inr (Atomic_Symbol (toLocation t) (lexeme t), m)
      else Inl (UnexpectedFormError (Some (pos t))))"
  by (auto simp: parseToken_def specialFormKeywords_def)

lemma isSingleIdentifier_single:
  "ttype t \<noteq> LEFT_PAREN \<Longrightarrow> ttype t \<noteq> LEFT_BRACKET \<Longrightarrow>
   isSingleIdentifier (Group [Tok t] l) \<and> unwrap (Group [Tok t] l) = [Tok t]"
  by (simp add: isSingleIdentifier_def isParenthesized_def unwrap_def)

lemma affector_group_shape:
  "ttype a \<noteq> LEFT_PAREN \<Longrightarrow> ttype a \<noteq> LEFT_BRACKET \<Longrightarrow>
   \<not> isSingleIdentifier (Group [Tok a, d] l) \<and> \<not> isParenthesized (Group [Tok a, d] l)
   \<and> unwrap (Group [Tok a, d] l) = [Tok a, d]"
  by (simp add: isSingleIdentifier_def isParenthesized_def unwrap_def)

text \<open>
  C10. A special-form keyword token parsed as a datum (bare, or as the group of that
  single token) is a Symbol with the token's lexeme while the quote mode is QUOTE or
  QUASIQUOTE, and raises UnexpectedForm while the mode is NONE.
\<close>

theorem keyword_token_as_datum:
  assumes "ttype t \<in> set specialFormKeywords"
  shows "parseExpression ch Mode_QUOTE (Tok t)
           = Inr (Atomic_Symbol (toLocation t) (lexeme t), Mode_QUOTE)
       \<and> parseExpression ch Mode_QUASIQUOTE (Tok t)
           = Inr (Atomic_Symbol (toLocation t) (lexeme t), Mode_QUASIQUOTE)
       \<and> parseExpression ch Mode_NONE (Tok t) = Inl (UnexpectedFormError (Some (pos t)))
       \<and> parseExpression ch Mode_QUOTE (Grp (Group [Tok t] l))
           = Inr (Atomic_Symbol (toLocation t) (lexeme t), Mode_QUOTE)
       \<and> parseExpression ch Mode_QUASIQUOTE (Grp (Group [Tok t] l))
           = Inr (Atomic_Symbol (toLocation t) (lexeme t), Mode_QUASIQUOTE)
       \<and> parseExpression ch Mode_NONE (Grp (Group [Tok t] l))
           = Inl (UnexpectedFormError (Some (pos t)))"
proof -
  from assms have np: "ttype t \<noteq> LEFT_PAREN" "ttype t \<noteq> LEFT_BRACKET"
    by (auto simp: specialFormKeywords_def)
  note s = isSingleIdentifier_single [OF np, of l]
  show ?thesis
    using s by (simp add: parseExpression.simps parseToken_keyword [OF assms])
qed

theorem keyword_token_as_datum_witness:
  "parseExpression 1 Mode_QUOTE (Tok (Token_new IF ''if'' LNull 1 3 1 2))
     = Inr (Atomic_Symbol \<lparr> loc_start = \<lparr> pos_line = 1, pos_col = 2 \<rparr>,
                           loc_end = \<lparr> pos_line = 1, pos_col = 3 \<rparr> \<rparr> ''if'', Mode_QUOTE)
   \<and> parseExpression 1 Mode_NONE (Tok (Token_new IF ''if'' LNull 1 3 1 2))
     = Inl (UnexpectedFormError (Some \<lparr> pos_line = 1, pos_col = 2 \<rparr>))"
  using keyword_token_as_datum [of "Token_new IF ''if'' LNull 1 3 1 2" 1
      "\<lparr> loc_start = \<lparr> pos_line = 1, pos_col = 2 \<rparr>,
         loc_end = \<lparr> pos_line = 1, pos_col = 3 \<rparr> \<rparr>"]
  by (simp add: specialFormKeywords_def Token_new_def toLocation_def)

lemma apostrophe_at_top_level:
  assumes "ttype a = APOSTROPHE" and "QUOTING_CHAPTER \<le> ch"
  shows "parseExpression ch Mode_NONE (Grp (Group [Tok a, d] l))
      = bindE (parseExpression ch Mode_QUOTE d) (\<lambda>(e, m1). Inr (e, Mode_NONE))"
proof -
  have a: "\<not> isSingleIdentifier (Group [Tok a, d] l)"
    "\<not> isParenthesized (Group [Tok a, d] l)"
    "unwrap (Group [Tok a, d] l) = [Tok a, d]"
    using assms(1) affector_group_shape [of a] by simp_all
  have v: "validateChapter ch a QUOTING_CHAPTER = None"
    using assms(2) by (simp add: validateChapter_def)
  show ?thesis
    using a v assms(1)
    by (simp add: parseExpression.simps [of _ _ "Grp _"] parseGroup.simps
        parseAffectorGroup.simps)
qed

text \<open>
  C1. An identifier token parsed while the quote mode is NONE is an Identifier node
  with the token's lexeme. The apostrophe applied to it (the target being the bare
  token or the group of that single token), parsed at the top level with a chapter
  ceiling of at least 2, is a Symbol node with the same lexeme, and the mode is NONE
  again afterwards.
\<close>

theorem quote_mode_law:
  assumes "ttype x = IDENTIFIER" and "ttype a = APOSTROPHE" and "QUOTING_CHAPTER \<le> ch"
  shows "parseExpression ch Mode_NONE (Tok x)
           = Inr (Atomic_Identifier (toLocation x) (lexeme x), Mode_NONE)
       \<and> parseExpression ch Mode_NONE (Grp (Group [Tok x] l))
           = Inr (Atomic_Identifier (toLocation x) (lexeme x), Mode_NONE)
       \<and> parseExpression ch Mode_NONE (Grp (Group [Tok a, Tok x] l))
           = Inr (Atomic_Symbol (toLocation x) (lexeme x), Mode_NONE)
       \<and> parseExpression ch Mode_NONE (Grp (Group [Tok a, Grp (Group [Tok x] l')] l))
           = Inr (Atomic_Symbol (toLocation x) (lexeme x), Mode_NONE)"
proof -
  have x: "isSingleIdentifier (Group [Tok x] l)" "unwrap (Group [Tok x] l) = [Tok x]"
    "isSingleIdentifier (Group [Tok x] l')" "unwrap (Group [Tok x] l') = [Tok x]"
    using assms(1) isSingleIdentifier_single [of x] by simp_all
  have tok: "\<And>m. parseExpression ch m (Tok x) = parseToken m x"
    by (simp add: parseExpression.simps)
  have grp: "\<And>m. parseExpression ch m (Grp (Group [Tok x] l')) = parseToken m x"
    using x by (simp add: parseExpression.simps)
  note q = apostrophe_at_top_level [OF assms(2,3)]
  show ?thesis
    using x by (simp add: q tok grp parseToken_IDENTIFIER [OF assms(1)]
        parseExpression.simps [of _ _ "Grp (Group [Tok x] l)"])
qed

theorem quote_mode_law_witness:
  "parseExpression 2 Mode_NONE (Tok (Token_new IDENTIFIER ''x'' LNull 1 2 1 2))
     = Inr (Atomic_Identifier \<lparr> loc_start = \<lparr> pos_line = 1, pos_col = 2 \<rparr>,
                               loc_end = \<lparr> pos_line = 1, pos_col = 2 \<rparr> \<rparr> ''x'', Mode_NONE)
   \<and> parseExpression 2 Mode_NONE
        (Grp (Group [Tok (Token_new APOSTROPHE [CHR 0x27] LNull 0 1 1 1),
                     Tok (Token_new IDENTIFIER ''x'' LNull 1 2 1 2)]
                \<lparr> loc_start = \<lparr> pos_line = 1, pos_col = 1 \<rparr>,
                  loc_end = \<lparr> pos_line = 1, pos_col = 2 \<rparr> \<rparr>))
     = Inr (Atomic_Symbol \<lparr> loc_start = \<lparr> pos_line = 1, pos_col = 2 \<rparr>,
                           loc_end = \<lparr> pos_line = 1, pos_col = 2 \<rparr> \<rparr> ''x'', Mode_NONE)"
  using quote_mode_law [of "Token_new IDENTIFIER ''x'' LNull 1 2 1 2"
      "Token_new APOSTROPHE [CHR 0x27] LNull 0 1 1 1" 2
      "\<lparr> loc_start = \<lparr> pos_line = 1, pos_col = 1 \<rparr>,
         loc_end = \<lparr> pos_line = 1, pos_col = 2 \<rparr> \<rparr>"
      "\<lparr> loc_start = \<lparr> pos_line = 1, pos_col = 2 \<rparr>,
         loc_end = \<lparr> pos_line = 1, pos_col = 2 \<rparr> \<rparr>"]
  by (simp add: Token_new_def toLocation_def QUOTING_CHAPTER_def)
lemma quote_mode_kept:
  "parseExpression ch Mode_QUOTE d = Inr (e, m') \<Longrightarrow> m' = Mode_QUOTE"
  by (rule mode_kept)

lemma map_parseExpression_QUOTE:
  "map_parseExpression ch Mode_QUOTE ds = Inr (es, m') \<longleftrightarrow>
     m' = Mode_QUOTE \<and> length es = length ds \<and>
     (\<forall>i<length ds. parseExpression ch Mode_QUOTE (ds ! i) = Inr (es ! i, Mode_QUOTE))"
proof (induction ds arbitrary: es)
  case Nil
  then show ?case by auto
next
  case (Cons d ds)
  show ?case
  proof (cases "parseExpression ch Mode_QUOTE d")
    case (Inl err)
    then show ?thesis by (auto simp: less_Suc_eq_0_disj)
  next
    case (Inr r)
    obtain e m1 where r: "r = (e, m1)" by (cases r)
    with Inr have m1: "m1 = Mode_QUOTE" by (auto dest: quote_mode_kept)
    show ?thesis
    proof (cases es)
      case Nil
      then show ?thesis
        using Inr r by (auto simp: bindE_def split: sum.splits)
    next
      case (Cons e' es')
      show ?thesis
        using Inr r m1 Cons Cons.IH [of es']
        by (auto simp: bindE_def less_Suc_eq_0_disj split: sum.splits)
    qed
  qed
qed

lemma vector_group_shape:
  "ttype hv = HASH_VECTOR \<Longrightarrow>
   \<not> isSingleIdentifier (Group [Tok hv, d] l) \<and> \<not> isParenthesized (Group [Tok hv, d] l)
   \<and> unwrap (Group [Tok hv, d] l) = [Tok hv, d]"
  by (simp add: isSingleIdentifier_def isParenthesized_def unwrap_def)

text \<open>
  C5. For a vector datum (the hash-vector marker and a group), any ambient quote mode
  and a chapter ceiling that admits vectors: the parse returns exactly when every
  element between the parentheses of the inner group parses in mode QUOTE; the node
  is then the Vector of those parsed elements, each parsed in mode QUOTE (so an inner
  identifier is a Symbol), and the quote mode after the call is the ambient mode.
\<close>

theorem vector_elements_quoted:
  assumes "ttype hv = HASH_VECTOR" and "VECTOR_CHAPTER \<le> ch"
  shows "parseExpression ch m (Grp (Group [Tok hv, Grp inner] l)) = Inr (v, m') \<longleftrightarrow>
           m' = m \<and>
           (\<exists>es. v = Atomic_Vector l es \<and> length es = length (unwrap inner) \<and>
              (\<forall>i<length es. parseExpression ch Mode_QUOTE (unwrap inner ! i)
                                = Inr (es ! i, Mode_QUOTE)))"
proof -
  let ?g = "Group [Tok hv, Grp inner] l"
  note sh = vector_group_shape [OF assms(1), of "Grp inner" l]
  have vc: "validateChapter ch hv VECTOR_CHAPTER = None"
    using assms(2) by (simp add: validateChapter_def)
  have vec: "parseVector ch Mode_QUOTE ?g =
      bindE (map_parseExpression ch Mode_QUOTE (unwrap inner))
        (\<lambda>(convertedElements, m1). Inr (Atomic_Vector l convertedElements, m1))"
    using sh by (simp add: parseVector.simps)
  have "parseExpression ch m (Grp ?g) = parseAffectorGroup ch m ?g"
    using sh by (simp add: parseExpression.simps parseGroup.simps)
  also have "\<dots> = bindE (parseVector ch Mode_QUOTE ?g) (\<lambda>(vector, m1). Inr (vector, m))"
    using sh assms(1) vc by (simp add: parseAffectorGroup.simps)
  finally have eq: "parseExpression ch m (Grp ?g) =
      bindE (bindE (map_parseExpression ch Mode_QUOTE (unwrap inner))
        (\<lambda>(convertedElements, m1). Inr (Atomic_Vector l convertedElements, m1)))
        (\<lambda>(vector, m1). Inr (vector, m))"
    by (simp add: vec)
  show ?thesis
  proof (cases "map_parseExpression ch Mode_QUOTE (unwrap inner)")
    case (Inl err)
    have "\<not> (\<exists>es. length es = length (unwrap inner) \<and>
        (\<forall>i<length es. parseExpression ch Mode_QUOTE (unwrap inner ! i)
             = Inr (es ! i, Mode_QUOTE)))"
    proof
      assume "\<exists>es. length es = length (unwrap inner) \<and>
        (\<forall>i<length es. parseExpression ch Mode_QUOTE (unwrap inner ! i)
             = Inr (es ! i, Mode_QUOTE))"
      then obtain es where "length es = length (unwrap inner)"
        "\<forall>i<length es. parseExpression ch Mode_QUOTE (unwrap inner ! i)
             = Inr (es ! i, Mode_QUOTE)"
        by blast
      then have "map_parseExpression ch Mode_QUOTE (unwrap inner) = Inr (es, Mode_QUOTE)"
        using map_parseExpression_QUOTE [of ch "unwrap inner" es Mode_QUOTE] by simp
      with Inl show False by simp
    qed
    with Inl eq show ?thesis by auto
  next
    case (Inr r)
    obtain es m1 where r: "r = (es, m1)" by (cases r)
    from Inr r have es: "length es = length (unwrap inner)"
      "\<forall>i<length (unwrap inner). parseExpression ch Mode_QUOTE (unwrap inner ! i)
          = Inr (es ! i, Mode_QUOTE)"
      using map_parseExpression_QUOTE [of ch "unwrap inner" es m1] by auto
    have res: "parseExpression ch m (Grp ?g) = Inr (Atomic_Vector l es, m)"
      using eq Inr r by simp
    show ?thesis
    proof
      assume "parseExpression ch m (Grp ?g) = Inr (v, m')"
      with res es show "m' = m \<and>
           (\<exists>es. v = Atomic_Vector l es \<and> length es = length (unwrap inner) \<and>
              (\<forall>i<length es. parseExpression ch Mode_QUOTE (unwrap inner ! i)
                                = Inr (es ! i, Mode_QUOTE)))"
        by auto
    next
      assume a: "m' = m \<and>
           (\<exists>es. v = Atomic_Vector l es \<and> length es = length (unwrap inner) \<and>
              (\<forall>i<length es. parseExpression ch Mode_QUOTE (unwrap inner ! i)
                                = Inr (es ! i, Mode_QUOTE)))"
      then obtain es' where es': "v = Atomic_Vector l es'" "length es' = length (unwrap inner)"
        "\<forall>i<length es'. parseExpression ch Mode_QUOTE (unwrap inner ! i)
                                = Inr (es' ! i, Mode_QUOTE)"
        by blast
      have "es' = es"
        using es es' by (auto intro!: nth_equalityI)
      with res es' a show "parseExpression ch m (Grp ?g) = Inr (v, m')"
        by simp
    qed
  qed
qed
lemmas example_simps =
  tokenAt_def span_def Token_new_def toLocation_def unwrap_def isParenthesized_def
  isSingleIdentifier_def Group_length_def validateChapter_def BASIC_CHAPTER_def
  QUOTING_CHAPTER_def VECTOR_CHAPTER_def MUTABLE_CHAPTER_def parseToken_def


text \<open>
  Witness for C5: \<open>#(x 1)\<close> parsed at the top level with ceiling 3 is the vector of
  the symbol \<open>x\<close> and the number 1, and the mode is NONE again.
\<close>

theorem vector_elements_quoted_witness:
  "ttype (tokenAt HASH_VECTOR ''#'' LNull 1) = HASH_VECTOR \<and> VECTOR_CHAPTER \<le> 3
   \<and> parseExpression 3 Mode_NONE example_vector
       = Inr (Atomic_Vector (span 1 6)
                [Atomic_Symbol (toLocation (tokenAt IDENTIFIER ''x'' LNull 3)) ''x'',
                 Atomic_NumericLiteral (toLocation (tokenAt NUMBER ''1'' (LNumber ''1'') 5))
                   (LNumber ''1'')], Mode_NONE)"
proof -
  let ?inner = "Group
          [Tok (tokenAt LEFT_PAREN ''('' LNull 2),
           Tok (tokenAt IDENTIFIER ''x'' LNull 3),
           Tok (tokenAt NUMBER ''1'' (LNumber ''1'') 5),
           Tok (tokenAt RIGHT_PAREN '')'' LNull 6)] (span 2 6)"
  let ?es = "[Atomic_Symbol (toLocation (tokenAt IDENTIFIER ''x'' LNull 3)) ''x'',
              Atomic_NumericLiteral (toLocation (tokenAt NUMBER ''1'' (LNumber ''1'') 5))
                (LNumber ''1'')]"
  have t: "ttype (tokenAt HASH_VECTOR ''#'' LNull 1) = HASH_VECTOR"
    by (simp add: tokenAt_def Token_new_def)
  have c: "VECTOR_CHAPTER \<le> 3"
    by (simp add: VECTOR_CHAPTER_def)
  have u: "unwrap ?inner = [Tok (tokenAt IDENTIFIER ''x'' LNull 3),
                            Tok (tokenAt NUMBER ''1'' (LNumber ''1'') 5)]"
    by (simp add: unwrap_def isParenthesized_def tokenAt_def Token_new_def)
  have e: "\<exists>es. Atomic_Vector (span 1 6) ?es = Atomic_Vector (span 1 6) es
      \<and> length es = length (unwrap ?inner)
      \<and> (\<forall>i<length es. parseExpression 3 Mode_QUOTE (unwrap ?inner ! i)
             = Inr (es ! i, Mode_QUOTE))"
    apply (rule exI [of _ ?es])
    apply (simp only: u)
    apply (simp add: less_Suc_eq_0_disj parseExpression.simps parseToken_def tokenAt_def
          Token_new_def)
    done
  from vector_elements_quoted [OF t c, of Mode_NONE ?inner "span 1 6"
      "Atomic_Vector (span 1 6) ?es" Mode_NONE, THEN iffD2, OF conjI [OF refl e]] t c
  show ?thesis
    by (simp add: example_vector_def)
qed

lemma comma_at_group_shape:
  "ttype a = COMMA_AT \<Longrightarrow>
   \<not> isSingleIdentifier (Group [Tok a, d] l) \<and> \<not> isParenthesized (Group [Tok a, d] l)
   \<and> unwrap (Group [Tok a, d] l) = [Tok a, d]"
  by (auto simp: isSingleIdentifier_def isParenthesized_def unwrap_def)

lemma keyword_form_shape:
  "ttype lp = LEFT_PAREN \<or> ttype lp = LEFT_BRACKET \<Longrightarrow>
   \<not> isSingleIdentifier (Group [Tok lp, Tok kw, d, Tok rp] l)
   \<and> isParenthesized (Group [Tok lp, Tok kw, d, Tok rp] l)
   \<and> unwrap (Group [Tok lp, Tok kw, d, Tok rp] l) = [Tok kw, d]
   \<and> Group_length (Group [Tok lp, Tok kw, d, Tok rp] l) = 2"
  by (auto simp: isSingleIdentifier_def isParenthesized_def unwrap_def Group_length_def)

text \<open>
  C4 (as amended), with a chapter ceiling of at least 2. The comma-at affector applied
  to a target: outside any quoting the parse fails with UnexpectedForm; at the outer
  level of QUASIQUOTE it fails with UnsupportedToken; in mode QUOTE it fails as the
  target does in mode QUOTE, or yields the two-element list of the symbol
  unquote-splicing and the parsed target, and stays in mode QUOTE. The keyword reaches
  the parser as the head of the parenthesized group \<open>(unquote-splicing T)\<close>: outside
  any quoting that group fails with UnexpectedForm too; in mode QUOTE and in mode
  QUASIQUOTE it is read as quoted data and, unless the target fails, yields with no
  error the list, located at the group, of the symbol of the keyword and the parsed
  target, and the mode stays.
\<close>

theorem unquote_splicing_modes:
  assumes "QUOTING_CHAPTER \<le> ch"
  shows "(ttype a = COMMA_AT \<longrightarrow>
           parseExpression ch Mode_NONE (Grp (Group [Tok a, target] l))
             = Inl (UnexpectedFormError (Some (pos a)))
         \<and> parseExpression ch Mode_QUASIQUOTE (Grp (Group [Tok a, target] l))
             = Inl (UnsupportedTokenError (Some (pos a)))
         \<and> parseExpression ch Mode_QUOTE (Grp (Group [Tok a, target] l))
             = (case parseExpression ch Mode_QUOTE target of
                  Inl e \<Rightarrow> Inl e
                | Inr (innerGroup, m1) \<Rightarrow>
                    Inr (Extended_List (merge (toLocation a) (node_location innerGroup))
                           [Atomic_Symbol (toLocation a) ''unquote-splicing'', innerGroup] None,
                         Mode_QUOTE)))
       \<and> (ttype kw = UNQUOTE_SPLICING \<and> (ttype lp = LEFT_PAREN \<or> ttype lp = LEFT_BRACKET) \<longrightarrow>
           parseExpression ch Mode_NONE (Grp (Group [Tok lp, Tok kw, form_target, Tok rp] lf))
             = Inl (UnexpectedFormError (Some (pos kw)))
         \<and> parseExpression ch Mode_QUOTE (Grp (Group [Tok lp, Tok kw, form_target, Tok rp] lf))
             = (case parseExpression ch Mode_QUOTE form_target of
                  Inl e \<Rightarrow> Inl e
                | Inr (inner, m1) \<Rightarrow>
                    Inr (Extended_List lf [Atomic_Symbol (toLocation kw) (lexeme kw), inner] None,
                         Mode_QUOTE))
         \<and> parseExpression ch Mode_QUASIQUOTE (Grp (Group [Tok lp, Tok kw, form_target, Tok rp] lf))
             = (case parseExpression ch Mode_QUASIQUOTE form_target of
                  Inl e \<Rightarrow> Inl e
                | Inr (inner, m1) \<Rightarrow>
                    Inr (Extended_List lf [Atomic_Symbol (toLocation kw) (lexeme kw), inner] None,
                         Mode_QUASIQUOTE)))"
proof (intro conjI impI)
  assume a: "ttype a = COMMA_AT"
  note sh = comma_at_group_shape [OF a, of target l]
  have v: "validateChapter ch a QUOTING_CHAPTER = None"
    using assms by (simp add: validateChapter_def)
  have eq: "\<And>m. parseExpression ch m (Grp (Group [Tok a, target] l)) =
      (if m = Mode_NONE then Inl (UnexpectedFormError (Some (pos a)))
       else if m = Mode_QUOTE then
         bindE (parseExpression ch m target) (\<lambda>(innerGroup, m1).
           Inr (taggedList a ''unquote-splicing'' innerGroup, m1))
       else Inl (UnsupportedTokenError (Some (pos a))))"
    using sh v a
    by (simp add: parseExpression.simps [of _ _ "Grp _"] parseGroup.simps
        parseAffectorGroup.simps)
  show "parseExpression ch Mode_NONE (Grp (Group [Tok a, target] l))
      = Inl (UnexpectedFormError (Some (pos a)))"
    by (simp add: eq)
  show "parseExpression ch Mode_QUASIQUOTE (Grp (Group [Tok a, target] l))
      = Inl (UnsupportedTokenError (Some (pos a)))"
    by (simp add: eq)
  show "parseExpression ch Mode_QUOTE (Grp (Group [Tok a, target] l))
      = (case parseExpression ch Mode_QUOTE target of
           Inl e \<Rightarrow> Inl e
         | Inr (innerGroup, m1) \<Rightarrow>
             Inr (Extended_List (merge (toLocation a) (node_location innerGroup))
                    [Atomic_Symbol (toLocation a) ''unquote-splicing'', innerGroup] None,
                  Mode_QUOTE))"
    by (auto simp: eq taggedList_def bindE_def dest: mode_kept split: sum.splits)
next
  assume k: "ttype kw = UNQUOTE_SPLICING \<and> (ttype lp = LEFT_PAREN \<or> ttype lp = LEFT_BRACKET)"
  then have kw: "ttype kw = UNQUOTE_SPLICING"
    and lp: "ttype lp = LEFT_PAREN \<or> ttype lp = LEFT_BRACKET" by simp_all
  note sh = keyword_form_shape [OF lp, of kw form_target rp lf]
  have v: "validateChapter ch kw QUOTING_CHAPTER = None"
    using assms by (simp add: validateChapter_def)
  show "parseExpression ch Mode_NONE (Grp (Group [Tok lp, Tok kw, form_target, Tok rp] lf))
      = Inl (UnexpectedFormError (Some (pos kw)))"
    using sh v kw
    by (simp add: parseExpression.simps [of _ _ "Grp _"] parseGroup.simps
        parseNormalGroup.simps parseAffectorGroup.simps)
  have quoted: "parseExpression ch m (Grp (Group [Tok lp, Tok kw, form_target, Tok rp] lf))
      = (case parseExpression ch m form_target of
           Inl e \<Rightarrow> Inl e
         | Inr (inner, m1) \<Rightarrow>
             Inr (Extended_List lf [Atomic_Symbol (toLocation kw) (lexeme kw), inner] None, m))"
    if "m \<noteq> Mode_NONE" for m
  proof -
    have g: "parseExpression ch m (Grp (Group [Tok lp, Tok kw, form_target, Tok rp] lf))
        = parseQuotedGroup ch m (Group [Tok lp, Tok kw, form_target, Tok rp] lf)"
      using sh that
      by (cases m) (simp_all add: parseExpression.simps [of _ _ "Grp _"] parseGroup.simps)
    have t: "parseExpression ch m (Tok kw) = Inr (Atomic_Symbol (toLocation kw) (lexeme kw), m)"
      using kw that by (simp add: parseExpression.simps parseToken_def)
    show ?thesis
      using sh t
      by (auto simp: g parseQuotedGroup.simps destructureList.simps isDotToken_def kw
          noVerifier_def bindE_def dest: mode_kept split: sum.splits)
  qed
  show "parseExpression ch Mode_QUOTE (Grp (Group [Tok lp, Tok kw, form_target, Tok rp] lf))
      = (case parseExpression ch Mode_QUOTE form_target of
           Inl e \<Rightarrow> Inl e
         | Inr (inner, m1) \<Rightarrow>
             Inr (Extended_List lf [Atomic_Symbol (toLocation kw) (lexeme kw), inner] None,
                  Mode_QUOTE))"
    by (rule quoted) simp
  show "parseExpression ch Mode_QUASIQUOTE (Grp (Group [Tok lp, Tok kw, form_target, Tok rp] lf))
      = (case parseExpression ch Mode_QUASIQUOTE form_target of
           Inl e \<Rightarrow> Inl e
         | Inr (inner, m1) \<Rightarrow>
             Inr (Extended_List lf [Atomic_Symbol (toLocation kw) (lexeme kw), inner] None,
                  Mode_QUASIQUOTE))"
    by (rule quoted) simp
qed

text \<open>
  Witness for C4: \<open>,@x\<close> and \<open>(unquote-splicing x)\<close> with ceiling 2 in each of the
  three modes.
\<close>

theorem unquote_splicing_modes_witness:
  "QUOTING_CHAPTER \<le> 2
   \<and> parseExpression 2 Mode_NONE example_unquote_splicing
       = Inl (UnexpectedFormError (Some \<lparr> pos_line = 1, pos_col = 1 \<rparr>))
   \<and> parseExpression 2 Mode_QUASIQUOTE example_unquote_splicing
       = Inl (UnsupportedTokenError (Some \<lparr> pos_line = 1, pos_col = 1 \<rparr>))
   \<and> parseExpression 2 Mode_QUOTE example_unquote_splicing
       = Inr (Extended_List (span 1 3)
                [Atomic_Symbol (span 1 2) ''unquote-splicing'',
                 Atomic_Symbol (span 3 3) ''x''] None, Mode_QUOTE)
   \<and> parseExpression 2 Mode_NONE example_unquote_splicing_form
       = Inl (UnexpectedFormError (Some \<lparr> pos_line = 1, pos_col = 2 \<rparr>))
   \<and> parseExpression 2 Mode_QUOTE example_unquote_splicing_form
       = Inr (Extended_List (span 1 20)
                [Atomic_Symbol (span 2 17) ''unquote-splicing'',
                 Atomic_Symbol (span 19 19) ''x''] None, Mode_QUOTE)
   \<and> parseExpression 2 Mode_QUASIQUOTE example_unquote_splicing_form
       = Inr (Extended_List (span 1 20)
                [Atomic_Symbol (span 2 17) ''unquote-splicing'',
                 Atomic_Symbol (span 19 19) ''x''] None, Mode_QUASIQUOTE)"
proof -
  have c: "QUOTING_CHAPTER \<le> 2"
    by (simp add: QUOTING_CHAPTER_def)
  have x: "parseExpression 2 Mode_QUOTE
      (Grp (Group [Tok (tokenAt IDENTIFIER ''x'' LNull 3)] (span 3 3)))
      = Inr (Atomic_Symbol (span 3 3) ''x'', Mode_QUOTE)"
    by (simp add: parseExpression.simps example_simps)
  have y: "parseExpression 2 m (Tok (tokenAt IDENTIFIER ''x'' LNull 19))
      = Inr (if m = Mode_NONE then Atomic_Identifier (span 19 19) ''x''
             else Atomic_Symbol (span 19 19) ''x'', m)" for m
    by (simp add: parseExpression.simps example_simps)
  from unquote_splicing_modes [OF c,
      where a = "tokenAt COMMA_AT '',@'' LNull 1"
        and target = "Grp (Group [Tok (tokenAt IDENTIFIER ''x'' LNull 3)] (span 3 3))"
        and l = "span 1 3"
        and kw = "tokenAt UNQUOTE_SPLICING ''unquote-splicing'' LNull 2"
        and lp = "tokenAt LEFT_PAREN ''('' LNull 1"
        and form_target = "Tok (tokenAt IDENTIFIER ''x'' LNull 19)"
        and rp = "tokenAt RIGHT_PAREN '')'' LNull 20"
        and lf = "span 1 20"] c x y
  show ?thesis
    by (simp add: example_unquote_splicing_def example_unquote_splicing_form_def merge_def
        example_simps)
qed

text \<open>
  C4 as stated fails: outside any quoting, \<open>,@x\<close> raises UnexpectedForm, not the
  UnsupportedToken that \<open>,x\<close> raises there.
\<close>

theorem unquote_splicing_counterexample:
  "parseExpression \<infinity> Mode_NONE example_unquote_splicing
     = Inl (UnexpectedFormError (Some \<lparr> pos_line = 1, pos_col = 1 \<rparr>))
   \<and> parseExpression \<infinity> Mode_NONE example_unquote_splicing
     \<noteq> Inl (UnsupportedTokenError (Some \<lparr> pos_line = 1, pos_col = 1 \<rparr>))
   \<and> parseExpression \<infinity> Mode_NONE example_unquote
     = Inl (UnsupportedTokenError (Some \<lparr> pos_line = 1, pos_col = 1 \<rparr>))"
  by (simp add: example_unquote_splicing_def example_unquote_def parseExpression.simps
      parseGroup.simps parseAffectorGroup.simps example_simps)
lemma parenthesized_not_single: "isParenthesized g \<Longrightarrow> \<not> isSingleIdentifier g"
  by (simp add: isSingleIdentifier_def)

lemma normal_group_gated:
  assumes "unwrap g = Tok k # rest" and "formChapter (ttype k) = Some c" and "ch < c"
  shows "parseNormalGroup ch m g = Inl (DisallowedTokenError (Some (pos k)))"
proof -
  have l: "Group_length g \<noteq> 0" "unwrap g ! 0 = Tok k"
    using assms(1) by (simp_all add: Group_length_def)
  show ?thesis
    using assms(2,3)
    apply (subst parseNormalGroup.simps)
    apply (simp only: l if_False Datum.case)
    apply (cases "ttype k")
    apply (simp_all add: formChapter_def validateChapter_def)
    done
qed

lemma affector_group_gated:
  assumes "unwrap g = Tok a # rest" and "affectorChapter (ttype a) = Some c" and "ch < c"
  shows "parseAffectorGroup ch m g = Inl (DisallowedTokenError (Some (pos a)))"
  using assms(2,3)
  apply (subst parseAffectorGroup.simps)
  apply (simp only: assms(1) list.case Datum.case)
  apply (cases "ttype a")
  apply (simp_all add: affectorChapter_def validateChapter_def)
  done

text \<open>
  C3. With ceiling 1 the datum of \<open>(let ((x 1)) x)\<close> parses to a let node and the datum
  of \<open>'x\<close> raises DisallowedToken. In general, at the top level a parenthesized
  group headed by a keyword whose chapter exceeds the ceiling raises DisallowedToken
  at that keyword, and in any mode so does an affector group whose affector's
  chapter exceeds the ceiling.
\<close>

theorem chapter_gating:
  "parseExpression 1 Mode_NONE example_let
     = Inr (Extended_Let (span 1 15) [Atomic_Identifier (span 8 8) ''x'']
              [Atomic_NumericLiteral (span 10 10) (LNumber ''1'')]
              (Atomic_Identifier (span 14 14) ''x''), Mode_NONE)
   \<and> parseExpression 1 Mode_NONE example_quote
     = Inl (DisallowedTokenError (Some \<lparr> pos_line = 1, pos_col = 1 \<rparr>))
   \<and> (isParenthesized g \<and> unwrap g = Tok k # rest \<and> formChapter (ttype k) = Some c
        \<and> ch < c
      \<longrightarrow> parseExpression ch Mode_NONE (Grp g) = Inl (DisallowedTokenError (Some (pos k))))
   \<and> (\<not> isParenthesized g' \<and> \<not> isSingleIdentifier g' \<and> unwrap g' = Tok a # rest'
        \<and> affectorChapter (ttype a) = Some c' \<and> ch' < c'
      \<longrightarrow> parseExpression ch' m (Grp g') = Inl (DisallowedTokenError (Some (pos a))))"
proof (intro conjI impI)
  show "parseExpression 1 Mode_NONE example_let
     = Inr (Extended_Let (span 1 15) [Atomic_Identifier (span 8 8) ''x'']
              [Atomic_NumericLiteral (span 10 10) (LNumber ''1'')]
              (Atomic_Identifier (span 14 14) ''x''), Mode_NONE)"
    by (simp add: example_let_def parseExpression.simps parseGroup.simps
        parseNormalGroup.simps parseLet.simps bodyOf_def example_simps)
next
  show "parseExpression 1 Mode_NONE example_quote
     = Inl (DisallowedTokenError (Some \<lparr> pos_line = 1, pos_col = 1 \<rparr>))"
    by (simp add: example_quote_def parseExpression.simps parseGroup.simps
        parseAffectorGroup.simps example_simps)
next
  assume "isParenthesized g \<and> unwrap g = Tok k # rest \<and> formChapter (ttype k) = Some c
        \<and> ch < c"
  then show "parseExpression ch Mode_NONE (Grp g) = Inl (DisallowedTokenError (Some (pos k)))"
    by (simp add: parseExpression.simps parseGroup.simps parenthesized_not_single
        normal_group_gated)
next
  assume "\<not> isParenthesized g' \<and> \<not> isSingleIdentifier g' \<and> unwrap g' = Tok a # rest'
        \<and> affectorChapter (ttype a) = Some c' \<and> ch' < c'"
  then show "parseExpression ch' m (Grp g') = Inl (DisallowedTokenError (Some (pos a)))"
    by (simp add: parseExpression.simps parseGroup.simps affector_group_gated)
qed

text \<open>
  Witness for C3: \<open>(set! x 1)\<close> belongs to chapter 3 and is refused with ceiling 2.
\<close>

theorem chapter_gating_witness:
  "formChapter SET = Some 3 \<and> (2 :: enat) < 3
   \<and> parseExpression 2 Mode_NONE example_set
       = Inl (DisallowedTokenError (Some \<lparr> pos_line = 1, pos_col = 2 \<rparr>))"
proof -
  let ?g = "Group
       [Tok (tokenAt LEFT_PAREN ''('' LNull 1),
        Tok (tokenAt SET ''set!'' LNull 2),
        Tok (tokenAt IDENTIFIER ''x'' LNull 7),
        Tok (tokenAt NUMBER ''1'' (LNumber ''1'') 9),
        Tok (tokenAt RIGHT_PAREN '')'' LNull 10)] (span 1 10)"
  have a: "isParenthesized ?g"
    by (simp add: isParenthesized_def tokenAt_def Token_new_def)
  have b: "unwrap ?g = Tok (tokenAt SET ''set!'' LNull 2)
      # [Tok (tokenAt IDENTIFIER ''x'' LNull 7), Tok (tokenAt NUMBER ''1'' (LNumber ''1'') 9)]"
    by (simp add: unwrap_def isParenthesized_def tokenAt_def Token_new_def)
  have c: "formChapter (ttype (tokenAt SET ''set!'' LNull 2)) = Some 3"
    by (simp add: formChapter_def tokenAt_def Token_new_def MUTABLE_CHAPTER_def)
  have d: "(2 :: enat) < 3"
    by simp
  from chapter_gating [THEN conjunct2, THEN conjunct2, THEN conjunct1, rule_format,
      OF conjI [OF a conjI [OF b conjI [OF c d]]]] c d
  show ?thesis
    by (simp add: example_set_def tokenAt_def Token_new_def)
qed
section \<open>Destructuring of lists\<close>

text \<open>
  C2. \<open>destructureList\<close> returns the empty prefix and no tail on the empty list. On a
  singleton \<open>[a]\<close> it returns the verifier's error if the verifier rejects \<open>a\<close>, the
  parser's error if \<open>a\<close> does not parse, and otherwise the prefix of the parsed \<open>a\<close> and
  no tail. On a list of two or more elements it inspects the second-to-last element.
  If that is a token of type DOT, the call returns exactly when the verifier accepts the
  last element and every element before the dot and all of these parse; the prefix is
  then the elements before the dot, parsed one by one, and the tail is the parsed last
  element. If the second-to-last element is not a DOT token, the call returns exactly
  when the verifier accepts every element and every element parses; the prefix is then
  the whole list, parsed one by one, and there is no tail. The quote mode is unchanged.
\<close>

theorem destructureList_law:
  "destructureList ch m [] v = Inr (([], None), m)
   \<and> destructureList ch m [a] v =
       (case v a of
          Some err \<Rightarrow> Inl err
        | None \<Rightarrow> (case parseExpression ch m a of
                     Inl err \<Rightarrow> Inl err
                   | Inr (e, m1) \<Rightarrow> Inr (([e], None), m1)))
   \<and> (2 \<le> length list \<and> list ! (length list - 2) = Tok dot \<and> ttype dot = DOT \<longrightarrow>
        (destructureList ch m list v = Inr ((es, cdr), m') \<longleftrightarrow>
           v (last list) = None
           \<and> (\<forall>d\<in>set (take (length list - 2) list). v d = None)
           \<and> length es = length list - 2
           \<and> (\<forall>i<length list - 2. parseExpression ch m (list ! i) = Inr (es ! i, m))
           \<and> (\<exists>c. cdr = Some c \<and> parseExpression ch m (last list) = Inr (c, m))
           \<and> m' = m))
   \<and> (2 \<le> length list \<and> (\<forall>t. list ! (length list - 2) = Tok t \<longrightarrow> ttype t \<noteq> DOT) \<longrightarrow>
        (destructureList ch m list v = Inr ((es, cdr), m') \<longleftrightarrow>
           (\<forall>d\<in>set list. v d = None)
           \<and> length es = length list
           \<and> (\<forall>i<length list. parseExpression ch m (list ! i) = Inr (es ! i, m))
           \<and> cdr = None
           \<and> m' = m))"
proof (intro conjI impI)
  show "destructureList ch m [] v = Inr (([], None), m)"
    by (simp add: destructureList.simps)
next
  show "destructureList ch m [a] v =
       (case v a of
          Some err \<Rightarrow> Inl err
        | None \<Rightarrow> (case parseExpression ch m a of
                     Inl err \<Rightarrow> Inl err
                   | Inr (e, m1) \<Rightarrow> Inr (([e], None), m1)))"
    by (simp add: destructureList.simps throwIf_def bindE_def split: option.splits sum.splits)
next
  assume h: "2 \<le> length list \<and> list ! (length list - 2) = Tok dot \<and> ttype dot = DOT"
  then have len: "length list \<noteq> 0" "length list \<noteq> 1" by auto
  from h have dot: "isDotToken (list ! (length list - 2))"
    by (simp add: isDotToken_def)
  have tk: "length (take (length list - 2) list) = length list - 2" by simp
  show "destructureList ch m list v = Inr ((es, cdr), m') \<longleftrightarrow>
           v (last list) = None
           \<and> (\<forall>d\<in>set (take (length list - 2) list). v d = None)
           \<and> length es = length list - 2
           \<and> (\<forall>i<length list - 2. parseExpression ch m (list ! i) = Inr (es ! i, m))
           \<and> (\<exists>c. cdr = Some c \<and> parseExpression ch m (last list) = Inr (c, m))
           \<and> m' = m"
    apply (subst destructureList.simps)
    apply (simp only: len dot if_True if_False throwIf_Inr bindE_Inr forEach_verifier_None)
    apply (auto simp: map_parseExpression_iff bindE_Inr dest: mode_kept)
    done
next
  assume h: "2 \<le> length list \<and> (\<forall>t. list ! (length list - 2) = Tok t \<longrightarrow> ttype t \<noteq> DOT)"
  then have len: "length list \<noteq> 0" "length list \<noteq> 1" by auto
  from h have dot: "\<not> isDotToken (list ! (length list - 2))"
    by (auto simp: isDotToken_iff)
  show "destructureList ch m list v = Inr ((es, cdr), m') \<longleftrightarrow>
           (\<forall>d\<in>set list. v d = None)
           \<and> length es = length list
           \<and> (\<forall>i<length list. parseExpression ch m (list ! i) = Inr (es ! i, m))
           \<and> cdr = None
           \<and> m' = m"
    apply (subst destructureList.simps)
    apply (simp only: len dot if_True if_False throwIf_Inr bindE_Inr forEach_verifier_None)
    apply (auto simp: map_parseExpression_iff)
    done
qed


text \<open>
  Witness for C2, with the verifier of formal parameters: the empty list; \<open>[a]\<close>; the
  proper list \<open>[a, b]\<close>, whose prefix is both elements with no tail; and the elements of
  \<open>(a b . c)\<close>, which give the prefix \<open>[a, b]\<close> and the tail \<open>c\<close>.
\<close>

theorem destructureList_law_witness:
  "destructureList \<infinity> Mode_NONE ([] :: TokenType Datum list) identifierVerifier = Inr (([], None), Mode_NONE)
   \<and> destructureList \<infinity> Mode_NONE [Tok (tokenAt IDENTIFIER ''a'' LNull 2)] identifierVerifier
       = Inr (([Atomic_Identifier (span 2 2) ''a''], None), Mode_NONE)
   \<and> destructureList \<infinity> Mode_NONE
        [Tok (tokenAt IDENTIFIER ''a'' LNull 2), Tok (tokenAt IDENTIFIER ''b'' LNull 4)]
        identifierVerifier
       = Inr (([Atomic_Identifier (span 2 2) ''a'', Atomic_Identifier (span 4 4) ''b''], None),
              Mode_NONE)
   \<and> destructureList \<infinity> Mode_NONE example_dotted identifierVerifier
       = Inr (([Atomic_Identifier (span 2 2) ''a'', Atomic_Identifier (span 4 4) ''b''],
               Some (Atomic_Identifier (span 8 8) ''c'')), Mode_NONE)"
proof -
  note law = destructureList_law [where ch = "\<infinity>" and m = Mode_NONE and v = identifierVerifier]
  have 1: "destructureList \<infinity> Mode_NONE ([] :: TokenType Datum list) identifierVerifier = Inr (([], None), Mode_NONE)"
    using law [THEN conjunct1] .
  have 2: "destructureList \<infinity> Mode_NONE [Tok (tokenAt IDENTIFIER ''a'' LNull 2)] identifierVerifier
       = Inr (([Atomic_Identifier (span 2 2) ''a''], None), Mode_NONE)"
    using law [THEN conjunct2, THEN conjunct1, of "Tok (tokenAt IDENTIFIER ''a'' LNull 2)"]
    by (simp add: parseExpression.simps example_simps identifierVerifier_def)
  have 3: "destructureList \<infinity> Mode_NONE
        [Tok (tokenAt IDENTIFIER ''a'' LNull 2), Tok (tokenAt IDENTIFIER ''b'' LNull 4)]
        identifierVerifier
       = Inr (([Atomic_Identifier (span 2 2) ''a'', Atomic_Identifier (span 4 4) ''b''], None),
              Mode_NONE)"
    using law [THEN conjunct2, THEN conjunct2, THEN conjunct2,
      of "[Tok (tokenAt IDENTIFIER ''a'' LNull 2), Tok (tokenAt IDENTIFIER ''b'' LNull 4)]"
         "[Atomic_Identifier (span 2 2) ''a'', Atomic_Identifier (span 4 4) ''b'']"
         None Mode_NONE]
    by (simp add: parseExpression.simps example_simps identifierVerifier_def less_Suc_eq_0_disj)
  have 4: "destructureList \<infinity> Mode_NONE example_dotted identifierVerifier
       = Inr (([Atomic_Identifier (span 2 2) ''a'', Atomic_Identifier (span 4 4) ''b''],
               Some (Atomic_Identifier (span 8 8) ''c'')), Mode_NONE)"
    using law [THEN conjunct2, THEN conjunct2, THEN conjunct1,
      of example_dotted "tokenAt DOT ''.'' LNull 6"
         "[Atomic_Identifier (span 2 2) ''a'', Atomic_Identifier (span 4 4) ''b'']"
         "Some (Atomic_Identifier (span 8 8) ''c'')" Mode_NONE]
    by (simp add: example_dotted_def parseExpression.simps example_simps identifierVerifier_def
        less_Suc_eq_0_disj)
  from 1 2 3 4 show ?thesis by blast
qed
section \<open>Spans of nodes\<close>

text \<open>
  Every form of the parser that builds a node for a whole group gives the node the
  location stored in the group.
\<close>

lemma located_Inl [simp]: "located l (Inl e)"
  by (simp add: located_def)

lemma located_Inr [simp]: "located l (Inr (e, m)) \<longleftrightarrow> node_location e = l"
  by (simp add: located_def)





























end
